theory Spec2Isabelle
  imports Complex_Main
begin

section \<open>Values, errors and the external numerical routines\<close>

text \<open>
  The program is TEG_Optimizertion_Tool.py. Its floating-point numbers are modelled as
  reals. The exceptions Python raises are values: a division of two Python floats by
  zero raises ZeroDivisionError, numpy and the built-in float raise ValueError and
  TypeError (\<open>FloatValueError tok\<close> is the ValueError of \<open>float\<close> on the token \<open>tok\<close>,
  \<open>EvalError\<close> whatever \<open>eval\<close> raises). A numpy division by zero does not raise (it yields inf or nan); the model
  writes such a division with the division of the reals, and the theorems that depend
  on its value carry the hypothesis that the divisor is not zero. The statements about
  the guards against zero divisors are made on a second model of the optimizers and the
  operating-point solvers, over the floats with inf and nan (the section on numpy's
  arithmetic below).

  The routines of scipy (quad, fsolve, brentq) are arguments of the model: quad maps an
  integrand and two bounds to the first component of its result, fsolve maps a residual
  and a seed to the first component of the point it returns, brentq maps a residual and
  a bracket to the root it reports, or to None when it raises or does not converge.
\<close>

datatype py_error =
    ValueError string
  | TypeError string
  | ZeroDivisionError
  | FloatValueError string
  | EvalError

type_synonym poly = "real list"
type_synonym quad_t = "(real \<Rightarrow> real) \<Rightarrow> real \<Rightarrow> real \<Rightarrow> real"
type_synonym fsolve_t = "(real \<Rightarrow> real) \<Rightarrow> real \<Rightarrow> real"
type_synonym brentq_t = "(real \<Rightarrow> real) \<Rightarrow> real \<Rightarrow> real \<Rightarrow> real option"

subsection \<open>numpy's polynomial helpers (coefficients, highest degree first)\<close>

definition polyval :: "poly \<Rightarrow> real \<Rightarrow> real" where
  "polyval p x = foldl (\<lambda>y pv. y * x + pv) 0 p"

fun polyint :: "poly \<Rightarrow> poly" where
  "polyint [] = [0]"
| "polyint (c # cs) = c / real (Suc (length cs)) # polyint cs"

fun polyder :: "poly \<Rightarrow> poly" where
  "polyder [] = []"
| "polyder [c] = []"
| "polyder (c # cs) = c * real (length cs) # polyder cs"

text \<open>\<open>np.convolve(a, [1, 0])\<close>: numpy raises on an empty operand.\<close>

definition convolve_1_0 :: "poly \<Rightarrow> py_error + poly" where
  "convolve_1_0 a = (if a = [] then Inl (ValueError ''v cannot be empty'') else Inr (a @ [0]))"

subsection \<open>The floored thermal conductivity\<close>

definition k_min_default :: real where
  "k_min_default = 1 / 100000"

definition safe_polyval_k :: "poly \<Rightarrow> real \<Rightarrow> real \<Rightarrow> real" where
  "safe_polyval_k p T k_min = max (polyval p T) k_min"

definition safe_polyint_k :: "quad_t \<Rightarrow> poly \<Rightarrow> real \<Rightarrow> real \<Rightarrow> real \<Rightarrow> real" where
  "safe_polyint_k quad p T1 T2 k_min = quad (\<lambda>T. safe_polyval_k p T k_min) T1 T2"

text \<open>
  What the theorems on the conductivity integral ask of the quadrature: it is monotone
  in the integrand on the interval and exact on constants, as the integral itself and
  every rule with non-negative weights are.
\<close>

definition positive_quadrature :: "quad_t \<Rightarrow> bool" where
  "positive_quadrature quad \<longleftrightarrow>
     (\<forall>f g a b. a \<le> b \<and> (\<forall>x. a \<le> x \<and> x \<le> b \<longrightarrow> f x \<le> g x) \<longrightarrow> quad f a b \<le> quad g a b) \<and>
     (\<forall>c a b. quad (\<lambda>x. c) a b = c * (b - a))"

subsection \<open>Reference routines, used to run the model on concrete inputs\<close>

text \<open>
  The midpoint rule is exact on integrands of degree at most one; one Newton step with a
  forward difference finds the root of a residual that is affine around the seed.
\<close>

definition quad_ref :: quad_t where
  "quad_ref f a b = (b - a) * f ((a + b) / 2)"

definition fsolve_ref :: fsolve_t where
  "fsolve_ref f x0 = (if f (x0 + 1) = f x0 then x0 else x0 - f x0 / (f (x0 + 1) - f x0))"

section \<open>The single-leg optimizer\<close>

text \<open>The local variables of \<open>run_calc_single\<close> up to the correction coefficients.\<close>

record opt_locals =
  deltaT :: real
  effc :: real
  SengP :: real
  KengP :: real
  RengP :: real
  RengP1 :: real
  ZT_eng :: real
  a0 :: real
  a1 :: real
  a2 :: real

record single_locals = opt_locals +
  Sum_st :: poly
  Sum_rt :: poly
  Sum_taut :: poly
  int_taut :: real
  int_rt :: real

definition single_locals ::
  "quad_t \<Rightarrow> poly \<Rightarrow> poly \<Rightarrow> poly \<Rightarrow> real \<Rightarrow> real \<Rightarrow> real \<Rightarrow> real \<Rightarrow> real
     \<Rightarrow> py_error + single_locals" where
  "single_locals quad p_st p_kt p_rt Tc Tmax L gamma_c_h gamma_c_c =
    (let Sum_st = polyint p_st;
         Sum_rt = polyint p_rt
     in case convolve_1_0 (polyder p_st) of
          Inl e \<Rightarrow> Inl e
        | Inr p_taut \<Rightarrow>
           (let Sum_taut = polyint p_taut;
                deltaT = Tmax - Tc
            in if Tmax = 0 then Inl ZeroDivisionError
               else
               (let effc = deltaT / Tmax;
                    SengP = polyval Sum_st Tmax - polyval Sum_st Tc;
                    KengP = safe_polyint_k quad p_kt Tc Tmax k_min_default;
                    RengP = polyval Sum_rt Tmax - polyval Sum_rt Tc
                in if L = 0 then Inl ZeroDivisionError
                   else
                   (let RengP1 = RengP + deltaT * (gamma_c_h + gamma_c_c) / L;
                        ZT_eng = SengP ^ 2 * deltaT / KengP / RengP1;
                        int_taut = quad (\<lambda>T. polyval Sum_taut Tmax - polyval Sum_taut T) Tc Tmax;
                        int_rt = quad (\<lambda>T. polyval Sum_rt Tmax - polyval Sum_rt T) Tc Tmax;
                        a0 = polyval p_st Tmax * deltaT / SengP - int_taut / (SengP * deltaT) * effc;
                        a1 = a0 - effc * (int_rt + deltaT ^ 2 * gamma_c_h / L) / RengP1 / deltaT;
                        a2 = a0 - 2 * effc * (int_rt + deltaT ^ 2 * gamma_c_h / L) / RengP1 / deltaT
                    in Inr \<lparr>deltaT = deltaT, effc = effc, SengP = SengP, KengP = KengP,
                            RengP = RengP, RengP1 = RengP1, ZT_eng = ZT_eng,
                            a0 = a0, a1 = a1, a2 = a2,
                            Sum_st = Sum_st, Sum_rt = Sum_rt, Sum_taut = Sum_taut,
                            int_taut = int_taut, int_rt = int_rt\<rparr>))))"

text \<open>The local function \<open>sc_eq\<close> of \<open>run_calc_single\<close>, with what it captures.\<close>

definition sc_eq_single ::
  "quad_t \<Rightarrow> poly \<Rightarrow> poly \<Rightarrow> single_locals \<Rightarrow> real \<Rightarrow> real \<Rightarrow> real \<Rightarrow> real \<Rightarrow> real \<Rightarrow> real
     \<Rightarrow> real \<Rightarrow> real" where
  "sc_eq_single quad p_st p_kt q al Qin Tc L gamma_c_h gamma_c_c Th =
    (let dt = Th - Tc
     in if dt \<le> 0 then Qin
        else
        (let SengP_sc = polyval (Sum_st q) Th - polyval (Sum_st q) Tc;
             KengP_sc = safe_polyint_k quad p_kt Tc Th k_min_default;
             RengP_sc = polyval (Sum_rt q) Th - polyval (Sum_rt q) Tc;
             RengP1_sc = RengP_sc + dt * (gamma_c_h + gamma_c_c) / L;
             int_taut_sc = quad (\<lambda>T. polyval (Sum_taut q) Th - polyval (Sum_taut q) T) Tc Th;
             int_rt_sc = quad (\<lambda>T. polyval (Sum_rt q) Th - polyval (Sum_rt q) T) Tc Th;
             den_sc = KengP_sc
                      + (dt * SengP_sc * Th * polyval p_st Th - SengP_sc * int_taut_sc) / RengP1_sc
                      - SengP_sc ^ 2 * (int_rt_sc + dt ^ 2 * gamma_c_h / L) / (RengP1_sc ^ 2)
         in al * den_sc - Qin))"

text \<open>The tuple \<open>run_calc_single\<close> returns.\<close>

record single_opt =
  eff :: real
  m_opt :: real
  alpha :: real
  Vopt :: real
  Th_sc :: real
  Isc :: real
  R_star_opt :: real
  R_L_opt :: real

definition run_calc_single ::
  "quad_t \<Rightarrow> fsolve_t \<Rightarrow> poly \<Rightarrow> poly \<Rightarrow> poly \<Rightarrow> real \<Rightarrow> real \<Rightarrow> real \<Rightarrow> real \<Rightarrow> real \<Rightarrow> real
     \<Rightarrow> py_error + single_opt" where
  "run_calc_single quad fsolve p_st p_kt p_rt Qin Tc Tmax L gamma_c_h gamma_c_c =
    (case single_locals quad p_st p_kt p_rt Tc Tmax L gamma_c_h gamma_c_c of
       Inl e \<Rightarrow> Inl e
     | Inr q \<Rightarrow>
        (let m = sqrt (1 + ZT_eng q * a1 q / effc q);
             eff = effc q * (sqrt (1 + ZT_eng q * a1 q / effc q) - 1)
                   / (a0 q * sqrt (1 + ZT_eng q * a1 q / effc q) + a2 q);
             den = KengP q
                   + 1 / (1 + m) * (deltaT q * SengP q * Tmax * polyval p_st Tmax
                                     - SengP q * int_taut q) / RengP1 q
                   - 1 / (1 + m) ^ 2 * SengP q ^ 2
                     * (int_rt q + deltaT q ^ 2 * gamma_c_h / L) / (RengP1 q ^ 2);
             alpha = Qin / den;
             Vopt = \<bar>SengP q * m / (1 + m)\<bar>;
             R_star_opt = (if alpha \<noteq> 0 \<and> deltaT q \<noteq> 0
                           then (1 / alpha) * (1 / deltaT q) * RengP1 q else 0);
             R_L_opt = m * R_star_opt;
             Th_sc = fsolve (sc_eq_single quad p_st p_kt q alpha Qin Tc L gamma_c_h gamma_c_c)
                            (Tc + 20);
             dt_sc = Th_sc - Tc;
             SengP_sc = polyval (Sum_st q) Th_sc - polyval (Sum_st q) Tc;
             RengP_sc = polyval (Sum_rt q) Th_sc - polyval (Sum_rt q) Tc;
             RengP1_sc = RengP_sc + dt_sc * (gamma_c_h + gamma_c_c) / L;
             R_star_sc = (if alpha \<noteq> 0 \<and> dt_sc \<noteq> 0
                          then (1 / alpha) * (1 / dt_sc) * RengP1_sc else 0);
             Isc = (if R_star_sc \<noteq> 0 then \<bar>SengP_sc / R_star_sc\<bar> else 0)
         in Inr \<lparr>eff = eff, m_opt = m, alpha = alpha, Vopt = Vopt, Th_sc = Th_sc,
                 Isc = Isc, R_star_opt = R_star_opt, R_L_opt = R_L_opt\<rparr>))"

section \<open>The couple optimizer\<close>

text \<open>The local variables of \<open>run_calc_Couple\<close> up to the correction coefficients.\<close>

record couple_locals = opt_locals +
  Sum_pst :: poly
  Sum_prt :: poly
  Sum_ptaut :: poly
  Sum_nst :: poly
  Sum_nrt :: poly
  Sum_ntaut :: poly
  SengN :: real
  KengN :: real
  RengN :: real
  RengN1 :: real
  beta :: real
  int_ptaut :: real
  int_ntaut :: real
  int_prt :: real
  int_nrt :: real

definition couple_locals ::
  "quad_t \<Rightarrow> real \<Rightarrow> real \<Rightarrow> real \<Rightarrow> real \<Rightarrow> real \<Rightarrow> real \<Rightarrow> real
     \<Rightarrow> poly \<Rightarrow> poly \<Rightarrow> poly \<Rightarrow> poly \<Rightarrow> poly \<Rightarrow> poly \<Rightarrow> py_error + couple_locals" where
  "couple_locals quad Tc Th L rc_nh rc_nc rc_ph rc_pc p_st p_kt p_rt n_st n_kt n_rt =
    (let Sum_pst = polyint p_st;
         Sum_prt = polyint p_rt
     in case convolve_1_0 (polyder p_st) of
          Inl e \<Rightarrow> Inl e
        | Inr p_taut \<Rightarrow>
           (let Sum_ptaut = polyint p_taut;
                Sum_nst = polyint n_st;
                Sum_nrt = polyint n_rt
            in case convolve_1_0 (polyder n_st) of
                 Inl e \<Rightarrow> Inl e
               | Inr n_taut \<Rightarrow>
                  (let Sum_ntaut = polyint n_taut;
                       deltaT = Th - Tc
                   in if Th = 0 then Inl ZeroDivisionError
                      else
                      (let effc = deltaT / Th;
                           SengP = polyval Sum_pst Th - polyval Sum_pst Tc;
                           KengP = safe_polyint_k quad p_kt Tc Th k_min_default;
                           RengP = polyval Sum_prt Th - polyval Sum_prt Tc;
                           SengN = polyval Sum_nst Th - polyval Sum_nst Tc;
                           KengN = safe_polyint_k quad n_kt Tc Th k_min_default;
                           RengN = polyval Sum_nrt Th - polyval Sum_nrt Tc
                       in if L = 0 then Inl ZeroDivisionError
                          else
                          (let RengP1 = RengP + deltaT * (rc_ph + rc_pc) / L;
                               RengN1 = RengN + deltaT * (rc_nh + rc_nc) / L;
                               beta = (if RengP1 * KengN \<noteq> 0
                                       then sqrt (RengN1 * KengP / (RengP1 * KengN)) else 1);
                               ZT_eng = (SengP - SengN) ^ 2 * deltaT
                                        / (sqrt (KengP * RengP1) + sqrt (KengN * RengN1)) ^ 2;
                               int_ptaut = quad (\<lambda>T. polyval Sum_ptaut Th - polyval Sum_ptaut T) Tc Th;
                               int_ntaut = quad (\<lambda>T. polyval Sum_ntaut Th - polyval Sum_ntaut T) Tc Th;
                               int_prt = quad (\<lambda>T. polyval Sum_prt Th - polyval Sum_prt T) Tc Th;
                               int_nrt = quad (\<lambda>T. polyval Sum_nrt Th - polyval Sum_nrt T) Tc Th;
                               a0 = (polyval p_st Th - polyval n_st Th) * deltaT / (SengP - SengN)
                                    - (int_ptaut - int_ntaut) / ((SengP - SengN) * deltaT) * effc;
                               a1 = a0 - effc * (int_prt + beta * int_nrt
                                                 + deltaT ^ 2 * (rc_ph + beta * rc_nh) / L)
                                         / (RengP1 + beta * RengN1) / deltaT;
                               a2 = a0 - 2 * effc * (int_prt + beta * int_nrt
                                                     + deltaT ^ 2 * (rc_ph + beta * rc_nh) / L)
                                         / (RengP1 + beta * RengN1) / deltaT
                           in Inr \<lparr>deltaT = deltaT, effc = effc, SengP = SengP, KengP = KengP,
                                   RengP = RengP, RengP1 = RengP1, ZT_eng = ZT_eng,
                                   a0 = a0, a1 = a1, a2 = a2,
                                   Sum_pst = Sum_pst, Sum_prt = Sum_prt, Sum_ptaut = Sum_ptaut,
                                   Sum_nst = Sum_nst, Sum_nrt = Sum_nrt, Sum_ntaut = Sum_ntaut,
                                   SengN = SengN, KengN = KengN, RengN = RengN, RengN1 = RengN1,
                                   beta = beta, int_ptaut = int_ptaut, int_ntaut = int_ntaut,
                                   int_prt = int_prt, int_nrt = int_nrt\<rparr>)))))"

text \<open>
  The local function \<open>sc_eq\<close> of \<open>run_calc_Couple\<close>. In \<open>denN_sc\<close> the source squares
  \<open>SengP - SengN_sc\<close>, with the \<open>SengP\<close> of the design point.
\<close>

definition sc_eq_Couple ::
  "quad_t \<Rightarrow> poly \<Rightarrow> poly \<Rightarrow> poly \<Rightarrow> poly \<Rightarrow> couple_locals \<Rightarrow> real \<Rightarrow> real \<Rightarrow> real \<Rightarrow> real
     \<Rightarrow> real \<Rightarrow> real \<Rightarrow> real \<Rightarrow> real \<Rightarrow> real \<Rightarrow> real" where
  "sc_eq_Couple quad p_st p_kt n_st n_kt q aP Qin Tc L rc_nh rc_nc rc_ph rc_pc Th =
    (let dt = Th - Tc
     in if dt \<le> 0 then Qin
        else
        (let KengP_sc = safe_polyint_k quad p_kt Tc Th k_min_default;
             KengN_sc = safe_polyint_k quad n_kt Tc Th k_min_default;
             SengP_sc = polyval (Sum_pst q) Th - polyval (Sum_pst q) Tc;
             SengN_sc = polyval (Sum_nst q) Th - polyval (Sum_nst q) Tc;
             RengP_sc = polyval (Sum_prt q) Th - polyval (Sum_prt q) Tc;
             RengN_sc = polyval (Sum_nrt q) Th - polyval (Sum_nrt q) Tc;
             RengP1_sc = RengP_sc + dt * (rc_ph + rc_pc) / L;
             RengN1_sc = RengN_sc + dt * (rc_nh + rc_nc) / L;
             int_ptaut_sc = quad (\<lambda>T. polyval (Sum_ptaut q) Th - polyval (Sum_ptaut q) T) Tc Th;
             int_ntaut_sc = quad (\<lambda>T. polyval (Sum_ntaut q) Th - polyval (Sum_ntaut q) T) Tc Th;
             int_prt_sc = quad (\<lambda>T. polyval (Sum_prt q) Th - polyval (Sum_prt q) T) Tc Th;
             int_nrt_sc = quad (\<lambda>T. polyval (Sum_nrt q) Th - polyval (Sum_nrt q) T) Tc Th;
             denP_sc = KengP_sc
                       + ((SengP_sc - SengN_sc) * Th * polyval p_st Th * dt
                          - (SengP_sc - SengN_sc) * int_ptaut_sc)
                         / (RengP1_sc + inverse (beta q) * RengN1_sc)
                       - (SengP_sc - SengN_sc) ^ 2 * (int_prt_sc + dt ^ 2 * rc_ph / L)
                         / (RengP1_sc + inverse (beta q) * RengN1_sc) ^ 2;
             denN_sc = KengN_sc
                       - ((SengP_sc - SengN_sc) * Th * polyval n_st Th * dt
                          - (SengP_sc - SengN_sc) * int_ntaut_sc)
                         / (beta q * RengP1_sc + RengN1_sc)
                       - (SengP q - SengN_sc) ^ 2 * (int_nrt_sc + dt ^ 2 * rc_nh / L)
                         / (beta q * RengP1_sc + RengN1_sc) ^ 2
         in aP * (denP_sc + beta q * denN_sc) - Qin))"

text \<open>The tuple \<open>run_calc_Couple\<close> returns (its seventh component is \<open>Qin * eff\<close>).\<close>

record couple_opt = single_opt +
  beta_opt :: real
  alphaP :: real
  alphaN :: real
  Pmax :: real

definition run_calc_Couple ::
  "quad_t \<Rightarrow> fsolve_t \<Rightarrow> real \<Rightarrow> real \<Rightarrow> real \<Rightarrow> real \<Rightarrow> real \<Rightarrow> real \<Rightarrow> real \<Rightarrow> real
     \<Rightarrow> poly \<Rightarrow> poly \<Rightarrow> poly \<Rightarrow> poly \<Rightarrow> poly \<Rightarrow> poly \<Rightarrow> py_error + couple_opt" where
  "run_calc_Couple quad fsolve Qin Tc Th L rc_nh rc_nc rc_ph rc_pc p_st p_kt p_rt n_st n_kt n_rt =
    (case couple_locals quad Tc Th L rc_nh rc_nc rc_ph rc_pc p_st p_kt p_rt n_st n_kt n_rt of
       Inl e \<Rightarrow> Inl e
     | Inr q \<Rightarrow>
        (let m = sqrt (1 + ZT_eng q * a1 q / effc q);
             eff = effc q * (sqrt (1 + ZT_eng q * a1 q / effc q) - 1)
                   / (a0 q * sqrt (1 + ZT_eng q * a1 q / effc q) + a2 q);
             denP = KengP q
                    + ((SengP q - SengN q) * Th * polyval p_st Th * deltaT q
                       - (SengP q - SengN q) * int_ptaut q)
                      / (1 + m) / (RengP1 q + inverse (beta q) * RengN1 q)
                    - (SengP q - SengN q) ^ 2 * (int_prt q + deltaT q ^ 2 * rc_ph / L)
                      / (1 + m) ^ 2 / (RengP1 q + inverse (beta q) * RengN1 q) ^ 2;
             denN = KengN q
                    - ((SengP q - SengN q) * Th * polyval n_st Th * deltaT q
                       - (SengP q - SengN q) * int_ntaut q)
                      / (1 + m) / (beta q * RengP1 q + RengN1 q)
                    - (SengP q - SengN q) ^ 2 * (int_nrt q + deltaT q ^ 2 * rc_nh / L)
                      / (1 + m) ^ 2 / (beta q * RengP1 q + RengN1 q) ^ 2;
             alphaP = Qin / (denP + beta q * denN);
             alphaN = beta q * alphaP;
             alpha = alphaN + alphaP;
             Pmax = Qin * eff;
             Vopt = (SengP q - SengN q) * m / (1 + m);
             R_star_opt = (if deltaT q = 0 \<or> alphaP = 0 \<or> alphaN = 0 then 0
                           else (RengP1 q / alphaP + RengN1 q / alphaN) / deltaT q);
             R_L_opt = m * R_star_opt;
             Th_sc = fsolve (sc_eq_Couple quad p_st p_kt n_st n_kt q alphaP Qin Tc L
                                          rc_nh rc_nc rc_ph rc_pc)
                            (Tc + 20);
             dt_sc = Th_sc - Tc;
             SengP_sc = polyval (Sum_pst q) Th_sc - polyval (Sum_pst q) Tc;
             SengN_sc = polyval (Sum_nst q) Th_sc - polyval (Sum_nst q) Tc;
             RengP_sc = polyval (Sum_prt q) Th_sc - polyval (Sum_prt q) Tc;
             RengN_sc = polyval (Sum_nrt q) Th_sc - polyval (Sum_nrt q) Tc;
             RengP1_sc = RengP_sc + dt_sc * (rc_ph + rc_pc) / L;
             RengN1_sc = RengN_sc + dt_sc * (rc_nh + rc_nc) / L;
             R_star_sc = (if dt_sc = 0 \<or> alphaP = 0 \<or> alphaN = 0 then 0
                          else (RengP1_sc / alphaP + RengN1_sc / alphaN) / dt_sc);
             Isc = (if R_star_sc \<noteq> 0 then (SengP_sc - SengN_sc) / R_star_sc else 0)
         in Inr \<lparr>eff = eff, m_opt = m, alpha = alpha, Vopt = Vopt, Th_sc = Th_sc,
                 Isc = Isc, R_star_opt = R_star_opt, R_L_opt = R_L_opt,
                 beta_opt = beta q, alphaP = alphaP, alphaN = alphaN, Pmax = Qin * eff\<rparr>))"

section \<open>Boundary solvers\<close>

text \<open>The residuals of the open-circuit solves in \<open>on_calc\<close> (a lambda and \<open>eq_oc_Couple\<close>).\<close>

definition eq_oc_single :: "quad_t \<Rightarrow> poly \<Rightarrow> real \<Rightarrow> real \<Rightarrow> real \<Rightarrow> real \<Rightarrow> real" where
  "eq_oc_single quad k_poly al Qin Tc Th =
     (if Th > Tc then al * safe_polyint_k quad k_poly Tc Th k_min_default - Qin else Qin)"

definition eq_oc_Couple ::
  "quad_t \<Rightarrow> poly \<Rightarrow> poly \<Rightarrow> real \<Rightarrow> real \<Rightarrow> real \<Rightarrow> real \<Rightarrow> real \<Rightarrow> real" where
  "eq_oc_Couple quad p_k_poly n_k_poly aP aN Qin Tc Th =
     (if Th \<le> Tc then Qin
      else (aP * safe_polyint_k quad p_k_poly Tc Th k_min_default
            + aN * safe_polyint_k quad n_k_poly Tc Th k_min_default) - Qin)"

text \<open>\<open>_solve_Th_I_at_m_single\<close> and its local function \<open>heat_balance\<close>.\<close>

definition heat_balance_single ::
  "quad_t \<Rightarrow> poly \<Rightarrow> poly \<Rightarrow> poly \<Rightarrow> poly \<Rightarrow> poly \<Rightarrow> real \<Rightarrow> real \<Rightarrow> real \<Rightarrow> real \<Rightarrow> real
     \<Rightarrow> real \<Rightarrow> real \<Rightarrow> real \<Rightarrow> real" where
  "heat_balance_single quad s_poly k_poly S_st S_rt S_taut al m Qin Tc Lmax gamma_c_h gamma_c_c Th =
    (if Th \<le> Tc + 1 / 10 ^ 6 then - Qin
     else
     (let dt = Th - Tc;
          SengP = polyval S_st Th - polyval S_st Tc;
          KengP = safe_polyint_k quad k_poly Tc Th k_min_default;
          RengP = polyval S_rt Th - polyval S_rt Tc;
          RengP1 = RengP + dt * (gamma_c_h + gamma_c_c) / Lmax;
          int_taut = quad (\<lambda>T. polyval S_taut Th - polyval S_taut T) Tc Th;
          int_rt = quad (\<lambda>T. polyval S_rt Th - polyval S_rt T) Tc Th;
          den_m = KengP
                  + 1 / (1 + m) * (dt * SengP * Th * polyval s_poly Th - SengP * int_taut) / RengP1
                  - 1 / (1 + m) ^ 2 * SengP ^ 2 * (int_rt + dt ^ 2 * gamma_c_h / Lmax) / (RengP1 ^ 2)
      in al * den_m - Qin))"

definition solve_Th_I_at_m_single ::
  "quad_t \<Rightarrow> fsolve_t \<Rightarrow> real \<Rightarrow> real \<Rightarrow> real \<Rightarrow> real \<Rightarrow> real \<Rightarrow> real \<Rightarrow> poly \<Rightarrow> poly \<Rightarrow> poly
     \<Rightarrow> real \<Rightarrow> py_error + real \<times> real" where
  "solve_Th_I_at_m_single quad fsolve m Tc Qin Lmax gamma_c_h gamma_c_c s_poly k_poly r_poly al =
    (let S_st = polyint s_poly;
         S_rt = polyint r_poly
     in case convolve_1_0 (polyder s_poly) of
          Inl e \<Rightarrow> Inl e
        | Inr p_taut \<Rightarrow>
           (let S_taut = polyint p_taut;
                Th_opt = fsolve (heat_balance_single quad s_poly k_poly S_st S_rt S_taut al m
                                   Qin Tc Lmax gamma_c_h gamma_c_c) (Tc + 50);
                dt = Th_opt - Tc;
                SengP = polyval S_st Th_opt - polyval S_st Tc;
                RengP = polyval S_rt Th_opt - polyval S_rt Tc;
                RengP1 = RengP + dt * (gamma_c_h + gamma_c_c) / Lmax;
                R_star = (if al \<noteq> 0 \<and> dt \<noteq> 0 then (1 / al) * (1 / dt) * RengP1 else 0);
                I = (if R_star \<noteq> 0 then \<bar>SengP / (R_star * (1 + m))\<bar> else 0)
            in Inr (Th_opt, I)))"

text \<open>\<open>_solve_Th_I_at_m_Couple\<close> and its local function \<open>heat_balance\<close>.\<close>

definition heat_balance_Couple ::
  "quad_t \<Rightarrow> poly \<Rightarrow> poly \<Rightarrow> poly \<Rightarrow> poly \<Rightarrow> poly \<Rightarrow> poly \<Rightarrow> poly \<Rightarrow> poly \<Rightarrow> poly \<Rightarrow> poly
     \<Rightarrow> real \<Rightarrow> real \<Rightarrow> real \<Rightarrow> real \<Rightarrow> real \<Rightarrow> real \<Rightarrow> real \<Rightarrow> real \<Rightarrow> real \<Rightarrow> real \<Rightarrow> real
     \<Rightarrow> real" where
  "heat_balance_Couple quad p_s p_k n_s n_k S_pst S_prt S_nst S_nrt S_ptaut S_ntaut
       m be Tc Qin Lmax rc_nh rc_nc rc_ph rc_pc aP Th =
    (if Th \<le> Tc + 1 / 10 ^ 6 then - Qin
     else
     (let dt = Th - Tc;
          SengP = polyval S_pst Th - polyval S_pst Tc;
          SengN = polyval S_nst Th - polyval S_nst Tc;
          KengP = safe_polyint_k quad p_k Tc Th k_min_default;
          KengN = safe_polyint_k quad n_k Tc Th k_min_default;
          RengP = polyval S_prt Th - polyval S_prt Tc;
          RengN = polyval S_nrt Th - polyval S_nrt Tc;
          RengP1 = RengP + dt * (rc_ph + rc_pc) / Lmax;
          RengN1 = RengN + dt * (rc_nh + rc_nc) / Lmax;
          int_ptaut = quad (\<lambda>T. polyval S_ptaut Th - polyval S_ptaut T) Tc Th;
          int_ntaut = quad (\<lambda>T. polyval S_ntaut Th - polyval S_ntaut T) Tc Th;
          int_prt = quad (\<lambda>T. polyval S_prt Th - polyval S_prt T) Tc Th;
          int_nrt = quad (\<lambda>T. polyval S_nrt Th - polyval S_nrt T) Tc Th;
          den_common = (1 + m) * (RengP1 + inverse be * RengN1);
          den_common_sq = (1 + m) ^ 2 * (RengP1 + inverse be * RengN1) ^ 2;
          S_diff = SengP - SengN;
          denP = KengP + (S_diff * Th * polyval p_s Th * dt - S_diff * int_ptaut) / den_common
                 - S_diff ^ 2 * (int_prt + dt ^ 2 * rc_ph / Lmax) / den_common_sq;
          denN = KengN
                 - (S_diff * Th * polyval n_s Th * dt - S_diff * int_ntaut)
                   / ((1 + m) * (be * RengP1 + RengN1))
                 - S_diff ^ 2 * (int_nrt + dt ^ 2 * rc_nh / Lmax)
                   / ((1 + m) ^ 2 * (be * RengP1 + RengN1) ^ 2)
      in aP * (denP + be * denN) - Qin))"

definition solve_Th_I_at_m_Couple ::
  "quad_t \<Rightarrow> fsolve_t \<Rightarrow> real \<Rightarrow> real \<Rightarrow> real \<Rightarrow> real \<Rightarrow> real \<Rightarrow> real \<Rightarrow> real \<Rightarrow> real \<Rightarrow> real
     \<Rightarrow> poly \<Rightarrow> poly \<Rightarrow> poly \<Rightarrow> poly \<Rightarrow> poly \<Rightarrow> poly \<Rightarrow> real \<Rightarrow> py_error + real \<times> real" where
  "solve_Th_I_at_m_Couple quad fsolve m be Tc Qin Lmax rc_nh rc_nc rc_ph rc_pc
       p_s p_k p_r n_s n_k n_r aP =
    (let S_pst = polyint p_s; S_prt = polyint p_r;
         S_nst = polyint n_s; S_nrt = polyint n_r
     in case convolve_1_0 (polyder p_s) of
          Inl e \<Rightarrow> Inl e
        | Inr p_taut \<Rightarrow>
           (let S_ptaut = polyint p_taut
            in case convolve_1_0 (polyder n_s) of
                 Inl e \<Rightarrow> Inl e
               | Inr n_taut \<Rightarrow>
                  (let S_ntaut = polyint n_taut;
                       Th_opt = fsolve (heat_balance_Couple quad p_s p_k n_s n_k S_pst S_prt S_nst
                                          S_nrt S_ptaut S_ntaut m be Tc Qin Lmax
                                          rc_nh rc_nc rc_ph rc_pc aP) (Tc + 50);
                       dt = Th_opt - Tc;
                       SengP = polyval S_pst Th_opt - polyval S_pst Tc;
                       SengN = polyval S_nst Th_opt - polyval S_nst Tc;
                       RengP = polyval S_prt Th_opt - polyval S_prt Tc;
                       RengN = polyval S_nrt Th_opt - polyval S_nrt Tc;
                       RengP1 = RengP + dt * (rc_ph + rc_pc) / Lmax;
                       RengN1 = RengN + dt * (rc_nh + rc_nc) / Lmax;
                       aN = aP * be;
                       R_star = (if dt \<noteq> 0 \<and> aP \<noteq> 0 \<and> aN \<noteq> 0
                                 then (RengP1 / aP + RengN1 / aN) / dt else 0);
                       Voc_local = SengP - SengN;
                       I = (if R_star \<noteq> 0 then Voc_local / (R_star * (1 + m)) else 0)
                   in Inr (Th_opt, I))))"

section \<open>The optimizer and the operating-point solvers in numpy's arithmetic\<close>

text \<open>
  A division by zero in numpy yields inf, -inf or nan, which then spread through the
  arithmetic; every ordering comparison with nan is false and \<open>nan != 0\<close> is true. The guards
  of the optimizer (\<open>... if (alpha != 0 and deltaT != 0) else 0\<close>) are written for these
  values, which the reals do not have. For the statements about the guards the two
  optimizers and the two operating-point solvers are therefore modelled a second time,
  over the floats with inf, -inf and nan. A finite value is an exact real: rounding,
  overflow and the sign of zero are not modelled (a finite value that is not zero,
  divided by zero, is the infinity of its sign; zero divided by zero is nan). The
  coefficients of the fitted property curves are finite.

  In \<open>run_calc_single\<close> and \<open>run_calc_Couple\<close> the operands of \<open>deltaT / Tmax\<close> and of
  \<open>... / L\<close> are Python floats, and Python raises ZeroDivisionError when the divisor is
  zero; every other division has a numpy operand and does not raise. In the
  operating-point solvers every division has a numpy operand.
\<close>

datatype npfloat = Fin real | PInf | NInf | NaN

definition inf_of_sign :: "real \<Rightarrow> npfloat" where
  "inf_of_sign s = (if s > 0 then PInf else if s < 0 then NInf else NaN)"

instantiation npfloat :: "{zero, one, plus, minus, uminus, times, inverse, abs, ord, power}"
begin

definition zero_npfloat :: npfloat where
  "zero_npfloat = Fin 0"

definition one_npfloat :: npfloat where
  "one_npfloat = Fin 1"

fun plus_npfloat :: "npfloat \<Rightarrow> npfloat \<Rightarrow> npfloat" where
  "plus_npfloat (Fin a) (Fin b) = Fin (a + b)"
| "plus_npfloat (Fin a) PInf = PInf"
| "plus_npfloat (Fin a) NInf = NInf"
| "plus_npfloat PInf (Fin b) = PInf"
| "plus_npfloat NInf (Fin b) = NInf"
| "plus_npfloat PInf PInf = PInf"
| "plus_npfloat NInf NInf = NInf"
| "plus_npfloat _ _ = NaN"

fun uminus_npfloat :: "npfloat \<Rightarrow> npfloat" where
  "uminus_npfloat (Fin a) = Fin (- a)"
| "uminus_npfloat PInf = NInf"
| "uminus_npfloat NInf = PInf"
| "uminus_npfloat NaN = NaN"

definition minus_npfloat :: "npfloat \<Rightarrow> npfloat \<Rightarrow> npfloat" where
  "minus_npfloat x y = x + (- y)"

fun times_npfloat :: "npfloat \<Rightarrow> npfloat \<Rightarrow> npfloat" where
  "times_npfloat (Fin a) (Fin b) = Fin (a * b)"
| "times_npfloat (Fin a) PInf = inf_of_sign a"
| "times_npfloat (Fin a) NInf = inf_of_sign (- a)"
| "times_npfloat PInf (Fin b) = inf_of_sign b"
| "times_npfloat NInf (Fin b) = inf_of_sign (- b)"
| "times_npfloat PInf PInf = PInf"
| "times_npfloat PInf NInf = NInf"
| "times_npfloat NInf PInf = NInf"
| "times_npfloat NInf NInf = PInf"
| "times_npfloat _ _ = NaN"

fun divide_npfloat :: "npfloat \<Rightarrow> npfloat \<Rightarrow> npfloat" where
  "divide_npfloat (Fin a) (Fin b) = (if b = 0 then inf_of_sign a else Fin (a / b))"
| "divide_npfloat (Fin a) PInf = Fin 0"
| "divide_npfloat (Fin a) NInf = Fin 0"
| "divide_npfloat PInf (Fin b) = (if b < 0 then NInf else PInf)"
| "divide_npfloat NInf (Fin b) = (if b < 0 then PInf else NInf)"
| "divide_npfloat _ _ = NaN"

definition inverse_npfloat :: "npfloat \<Rightarrow> npfloat" where
  "inverse_npfloat x = divide (Fin 1) x"

fun abs_npfloat :: "npfloat \<Rightarrow> npfloat" where
  "abs_npfloat (Fin a) = Fin \<bar>a\<bar>"
| "abs_npfloat PInf = PInf"
| "abs_npfloat NInf = PInf"
| "abs_npfloat NaN = NaN"

fun less_eq_npfloat :: "npfloat \<Rightarrow> npfloat \<Rightarrow> bool" where
  "less_eq_npfloat (Fin a) (Fin b) = (a \<le> b)"
| "less_eq_npfloat (Fin a) PInf = True"
| "less_eq_npfloat NInf (Fin b) = True"
| "less_eq_npfloat NInf NInf = True"
| "less_eq_npfloat NInf PInf = True"
| "less_eq_npfloat PInf PInf = True"
| "less_eq_npfloat _ _ = False"

fun less_npfloat :: "npfloat \<Rightarrow> npfloat \<Rightarrow> bool" where
  "less_npfloat (Fin a) (Fin b) = (a < b)"
| "less_npfloat (Fin a) PInf = True"
| "less_npfloat NInf (Fin b) = True"
| "less_npfloat NInf PInf = True"
| "less_npfloat _ _ = False"

instance ..

end

text \<open>\<open>np.sqrt\<close> and \<open>np.maximum\<close>.\<close>

fun sqrt_np :: "npfloat \<Rightarrow> npfloat" where
  "sqrt_np (Fin a) = (if a < 0 then NaN else Fin (sqrt a))"
| "sqrt_np PInf = PInf"
| "sqrt_np NInf = NaN"
| "sqrt_np NaN = NaN"

definition maximum_np :: "npfloat \<Rightarrow> npfloat \<Rightarrow> npfloat" where
  "maximum_np x y = (if x = NaN \<or> y = NaN then NaN else if x \<le> y then y else x)"

type_synonym np_quad_t = "(npfloat \<Rightarrow> npfloat) \<Rightarrow> npfloat \<Rightarrow> npfloat \<Rightarrow> npfloat"
type_synonym np_fsolve_t = "(npfloat \<Rightarrow> npfloat) \<Rightarrow> npfloat \<Rightarrow> npfloat"

definition polyval_np :: "poly \<Rightarrow> npfloat \<Rightarrow> npfloat" where
  "polyval_np p x = foldl (\<lambda>y pv. y * x + Fin pv) 0 p"

definition k_min_default_np :: npfloat where
  "k_min_default_np = Fin (1 / 100000)"

definition safe_polyval_k_np :: "poly \<Rightarrow> npfloat \<Rightarrow> npfloat \<Rightarrow> npfloat" where
  "safe_polyval_k_np p T k_min = maximum_np (polyval_np p T) k_min"

definition safe_polyint_k_np :: "np_quad_t \<Rightarrow> poly \<Rightarrow> npfloat \<Rightarrow> npfloat \<Rightarrow> npfloat \<Rightarrow> npfloat" where
  "safe_polyint_k_np quad p T1 T2 k_min = quad (\<lambda>T. safe_polyval_k_np p T k_min) T1 T2"

text \<open>The local function \<open>sc_eq\<close> of \<open>run_calc_single\<close>, with what it captures.\<close>

definition sc_eq_single_np ::
  "np_quad_t \<Rightarrow> poly \<Rightarrow> poly \<Rightarrow> poly \<Rightarrow> poly \<Rightarrow> poly \<Rightarrow> npfloat \<Rightarrow> npfloat \<Rightarrow> npfloat \<Rightarrow> npfloat
     \<Rightarrow> npfloat \<Rightarrow> npfloat \<Rightarrow> npfloat \<Rightarrow> npfloat" where
  "sc_eq_single_np quad p_st p_kt S_st S_rt S_taut al Qin Tc L gamma_c_h gamma_c_c Th =
    (let dt = Th - Tc
     in if dt \<le> 0 then Qin
        else
        (let SengP_sc = polyval_np S_st Th - polyval_np S_st Tc;
             KengP_sc = safe_polyint_k_np quad p_kt Tc Th k_min_default_np;
             RengP_sc = polyval_np S_rt Th - polyval_np S_rt Tc;
             RengP1_sc = RengP_sc + dt * (gamma_c_h + gamma_c_c) / L;
             int_taut_sc = quad (\<lambda>T. polyval_np S_taut Th - polyval_np S_taut T) Tc Th;
             int_rt_sc = quad (\<lambda>T. polyval_np S_rt Th - polyval_np S_rt T) Tc Th;
             den_sc = KengP_sc
                      + (dt * SengP_sc * Th * polyval_np p_st Th - SengP_sc * int_taut_sc) / RengP1_sc
                      - SengP_sc ^ 2 * (int_rt_sc + dt ^ 2 * gamma_c_h / L) / (RengP1_sc ^ 2)
         in al * den_sc - Qin))"

text \<open>
  \<open>run_calc_single\<close>; the result is the tuple
  \<open>(eff, m, alpha, Vopt, Th_sc, Isc, R_star_opt, R_L_opt)\<close> it returns.
\<close>

definition run_calc_single_np ::
  "np_quad_t \<Rightarrow> np_fsolve_t \<Rightarrow> poly \<Rightarrow> poly \<Rightarrow> poly \<Rightarrow> npfloat \<Rightarrow> npfloat \<Rightarrow> npfloat \<Rightarrow> npfloat
     \<Rightarrow> npfloat \<Rightarrow> npfloat
     \<Rightarrow> py_error + npfloat \<times> npfloat \<times> npfloat \<times> npfloat \<times> npfloat \<times> npfloat \<times> npfloat \<times> npfloat" where
  "run_calc_single_np quad fsolve p_st p_kt p_rt Qin Tc Tmax L gamma_c_h gamma_c_c =
    (let Sum_st = polyint p_st;
         Sum_rt = polyint p_rt
     in case convolve_1_0 (polyder p_st) of
          Inl e \<Rightarrow> Inl e
        | Inr p_taut \<Rightarrow>
           (let Sum_taut = polyint p_taut;
                deltaT = Tmax - Tc
            in if Tmax = 0 then Inl ZeroDivisionError
               else
               (let effc = deltaT / Tmax;
                    SengP = polyval_np Sum_st Tmax - polyval_np Sum_st Tc;
                    KengP = safe_polyint_k_np quad p_kt Tc Tmax k_min_default_np;
                    RengP = polyval_np Sum_rt Tmax - polyval_np Sum_rt Tc
                in if L = 0 then Inl ZeroDivisionError
                   else
                   (let RengP1 = RengP + deltaT * (gamma_c_h + gamma_c_c) / L;
                        ZT_eng = SengP ^ 2 * deltaT / KengP / RengP1;
                        int_taut = quad (\<lambda>T. polyval_np Sum_taut Tmax - polyval_np Sum_taut T) Tc Tmax;
                        int_rt = quad (\<lambda>T. polyval_np Sum_rt Tmax - polyval_np Sum_rt T) Tc Tmax;
                        a0 = polyval_np p_st Tmax * deltaT / SengP
                             - int_taut / (SengP * deltaT) * effc;
                        a1 = a0 - effc * (int_rt + deltaT ^ 2 * gamma_c_h / L) / RengP1 / deltaT;
                        a2 = a0 - Fin 2 * effc * (int_rt + deltaT ^ 2 * gamma_c_h / L) / RengP1 / deltaT;
                        m = sqrt_np (1 + ZT_eng * a1 / effc);
                        eff = effc * (sqrt_np (1 + ZT_eng * a1 / effc) - 1)
                              / (a0 * sqrt_np (1 + ZT_eng * a1 / effc) + a2);
                        den = KengP
                              + 1 / (1 + m) * (deltaT * SengP * Tmax * polyval_np p_st Tmax
                                                - SengP * int_taut) / RengP1
                              - 1 / (1 + m) ^ 2 * SengP ^ 2
                                * (int_rt + deltaT ^ 2 * gamma_c_h / L) / (RengP1 ^ 2);
                        alpha = Qin / den;
                        Vopt = \<bar>SengP * m / (1 + m)\<bar>;
                        R_star_opt = (if alpha \<noteq> 0 \<and> deltaT \<noteq> 0
                                      then (1 / alpha) * (1 / deltaT) * RengP1 else 0);
                        R_L_opt = m * R_star_opt;
                        Th_sc = fsolve (sc_eq_single_np quad p_st p_kt Sum_st Sum_rt Sum_taut alpha
                                          Qin Tc L gamma_c_h gamma_c_c) (Tc + Fin 20);
                        dt_sc = Th_sc - Tc;
                        SengP_sc = polyval_np Sum_st Th_sc - polyval_np Sum_st Tc;
                        RengP_sc = polyval_np Sum_rt Th_sc - polyval_np Sum_rt Tc;
                        RengP1_sc = RengP_sc + dt_sc * (gamma_c_h + gamma_c_c) / L;
                        R_star_sc = (if alpha \<noteq> 0 \<and> dt_sc \<noteq> 0
                                     then (1 / alpha) * (1 / dt_sc) * RengP1_sc else 0);
                        Isc = (if R_star_sc \<noteq> 0 then \<bar>SengP_sc / R_star_sc\<bar> else 0)
                    in Inr (eff, m, alpha, Vopt, Th_sc, Isc, R_star_opt, R_L_opt)))))"

text \<open>
  The local function \<open>sc_eq\<close> of \<open>run_calc_Couple\<close>; \<open>SengP_opt\<close> is the \<open>SengP\<close> of the
  design point, which the source squares against \<open>SengN_sc\<close> in \<open>denN_sc\<close>.
\<close>

definition sc_eq_Couple_np ::
  "np_quad_t \<Rightarrow> poly \<Rightarrow> poly \<Rightarrow> poly \<Rightarrow> poly \<Rightarrow> poly \<Rightarrow> poly \<Rightarrow> poly \<Rightarrow> poly \<Rightarrow> poly \<Rightarrow> poly
     \<Rightarrow> npfloat \<Rightarrow> npfloat \<Rightarrow> npfloat \<Rightarrow> npfloat \<Rightarrow> npfloat \<Rightarrow> npfloat \<Rightarrow> npfloat \<Rightarrow> npfloat \<Rightarrow> npfloat
     \<Rightarrow> npfloat \<Rightarrow> npfloat \<Rightarrow> npfloat" where
  "sc_eq_Couple_np quad p_st p_kt n_st n_kt S_pst S_prt S_ptaut S_nst S_nrt S_ntaut
       SengP_opt be aP Qin Tc L rc_nh rc_nc rc_ph rc_pc Th =
    (let dt = Th - Tc
     in if dt \<le> 0 then Qin
        else
        (let KengP_sc = safe_polyint_k_np quad p_kt Tc Th k_min_default_np;
             KengN_sc = safe_polyint_k_np quad n_kt Tc Th k_min_default_np;
             SengP_sc = polyval_np S_pst Th - polyval_np S_pst Tc;
             SengN_sc = polyval_np S_nst Th - polyval_np S_nst Tc;
             RengP_sc = polyval_np S_prt Th - polyval_np S_prt Tc;
             RengN_sc = polyval_np S_nrt Th - polyval_np S_nrt Tc;
             RengP1_sc = RengP_sc + dt * (rc_ph + rc_pc) / L;
             RengN1_sc = RengN_sc + dt * (rc_nh + rc_nc) / L;
             int_ptaut_sc = quad (\<lambda>T. polyval_np S_ptaut Th - polyval_np S_ptaut T) Tc Th;
             int_ntaut_sc = quad (\<lambda>T. polyval_np S_ntaut Th - polyval_np S_ntaut T) Tc Th;
             int_prt_sc = quad (\<lambda>T. polyval_np S_prt Th - polyval_np S_prt T) Tc Th;
             int_nrt_sc = quad (\<lambda>T. polyval_np S_nrt Th - polyval_np S_nrt T) Tc Th;
             denP_sc = KengP_sc
                       + ((SengP_sc - SengN_sc) * Th * polyval_np p_st Th * dt
                          - (SengP_sc - SengN_sc) * int_ptaut_sc)
                         / (RengP1_sc + inverse be * RengN1_sc)
                       - (SengP_sc - SengN_sc) ^ 2 * (int_prt_sc + dt ^ 2 * rc_ph / L)
                         / (RengP1_sc + inverse be * RengN1_sc) ^ 2;
             denN_sc = KengN_sc
                       - ((SengP_sc - SengN_sc) * Th * polyval_np n_st Th * dt
                          - (SengP_sc - SengN_sc) * int_ntaut_sc)
                         / (be * RengP1_sc + RengN1_sc)
                       - (SengP_opt - SengN_sc) ^ 2 * (int_nrt_sc + dt ^ 2 * rc_nh / L)
                         / (be * RengP1_sc + RengN1_sc) ^ 2
         in aP * (denP_sc + be * denN_sc) - Qin))"

text \<open>
  \<open>run_calc_Couple\<close>; the result is the tuple \<open>(eff, m, alpha, beta, alphaP, alphaN,
  Qin*eff, Vopt, Th_sc, Isc, R_star_opt, R_L_opt)\<close> it returns.
\<close>

definition run_calc_Couple_np ::
  "np_quad_t \<Rightarrow> np_fsolve_t \<Rightarrow> npfloat \<Rightarrow> npfloat \<Rightarrow> npfloat \<Rightarrow> npfloat \<Rightarrow> npfloat \<Rightarrow> npfloat
     \<Rightarrow> npfloat \<Rightarrow> npfloat \<Rightarrow> poly \<Rightarrow> poly \<Rightarrow> poly \<Rightarrow> poly \<Rightarrow> poly \<Rightarrow> poly
     \<Rightarrow> py_error + npfloat \<times> npfloat \<times> npfloat \<times> npfloat \<times> npfloat \<times> npfloat \<times> npfloat \<times> npfloat
                  \<times> npfloat \<times> npfloat \<times> npfloat \<times> npfloat" where
  "run_calc_Couple_np quad fsolve Qin Tc Th L rc_nh rc_nc rc_ph rc_pc p_st p_kt p_rt n_st n_kt n_rt =
    (let Sum_pst = polyint p_st;
         Sum_prt = polyint p_rt
     in case convolve_1_0 (polyder p_st) of
          Inl e \<Rightarrow> Inl e
        | Inr p_taut \<Rightarrow>
           (let Sum_ptaut = polyint p_taut;
                Sum_nst = polyint n_st;
                Sum_nrt = polyint n_rt
            in case convolve_1_0 (polyder n_st) of
                 Inl e \<Rightarrow> Inl e
               | Inr n_taut \<Rightarrow>
                  (let Sum_ntaut = polyint n_taut;
                       deltaT = Th - Tc
                   in if Th = 0 then Inl ZeroDivisionError
                      else
                      (let effc = deltaT / Th;
                           SengP = polyval_np Sum_pst Th - polyval_np Sum_pst Tc;
                           KengP = safe_polyint_k_np quad p_kt Tc Th k_min_default_np;
                           RengP = polyval_np Sum_prt Th - polyval_np Sum_prt Tc;
                           SengN = polyval_np Sum_nst Th - polyval_np Sum_nst Tc;
                           KengN = safe_polyint_k_np quad n_kt Tc Th k_min_default_np;
                           RengN = polyval_np Sum_nrt Th - polyval_np Sum_nrt Tc
                       in if L = 0 then Inl ZeroDivisionError
                          else
                          (let RengP1 = RengP + deltaT * (rc_ph + rc_pc) / L;
                               RengN1 = RengN + deltaT * (rc_nh + rc_nc) / L;
                               beta = (if RengP1 * KengN \<noteq> 0
                                       then sqrt_np (RengN1 * KengP / (RengP1 * KengN)) else 1);
                               ZT_eng = (SengP - SengN) ^ 2 * deltaT
                                        / (sqrt_np (KengP * RengP1) + sqrt_np (KengN * RengN1)) ^ 2;
                               int_ptaut = quad (\<lambda>T. polyval_np Sum_ptaut Th - polyval_np Sum_ptaut T) Tc Th;
                               int_ntaut = quad (\<lambda>T. polyval_np Sum_ntaut Th - polyval_np Sum_ntaut T) Tc Th;
                               int_prt = quad (\<lambda>T. polyval_np Sum_prt Th - polyval_np Sum_prt T) Tc Th;
                               int_nrt = quad (\<lambda>T. polyval_np Sum_nrt Th - polyval_np Sum_nrt T) Tc Th;
                               a0 = (polyval_np p_st Th - polyval_np n_st Th) * deltaT / (SengP - SengN)
                                    - (int_ptaut - int_ntaut) / ((SengP - SengN) * deltaT) * effc;
                               a1 = a0 - effc * (int_prt + beta * int_nrt
                                                 + deltaT ^ 2 * (rc_ph + beta * rc_nh) / L)
                                         / (RengP1 + beta * RengN1) / deltaT;
                               a2 = a0 - Fin 2 * effc * (int_prt + beta * int_nrt
                                                         + deltaT ^ 2 * (rc_ph + beta * rc_nh) / L)
                                         / (RengP1 + beta * RengN1) / deltaT;
                               m = sqrt_np (1 + ZT_eng * a1 / effc);
                               eff = effc * (sqrt_np (1 + ZT_eng * a1 / effc) - 1)
                                     / (a0 * sqrt_np (1 + ZT_eng * a1 / effc) + a2);
                               denP = KengP
                                      + ((SengP - SengN) * Th * polyval_np p_st Th * deltaT
                                         - (SengP - SengN) * int_ptaut)
                                        / (1 + m) / (RengP1 + inverse beta * RengN1)
                                      - (SengP - SengN) ^ 2 * (int_prt + deltaT ^ 2 * rc_ph / L)
                                        / (1 + m) ^ 2 / (RengP1 + inverse beta * RengN1) ^ 2;
                               denN = KengN
                                      - ((SengP - SengN) * Th * polyval_np n_st Th * deltaT
                                         - (SengP - SengN) * int_ntaut)
                                        / (1 + m) / (beta * RengP1 + RengN1)
                                      - (SengP - SengN) ^ 2 * (int_nrt + deltaT ^ 2 * rc_nh / L)
                                        / (1 + m) ^ 2 / (beta * RengP1 + RengN1) ^ 2;
                               alphaP = Qin / (denP + beta * denN);
                               alphaN = beta * alphaP;
                               alpha = alphaN + alphaP;
                               Pmax = Qin * eff;
                               Vopt = (SengP - SengN) * m / (1 + m);
                               R_star_opt = (if deltaT = 0 \<or> alphaP = 0 \<or> alphaN = 0 then 0
                                             else (RengP1 / alphaP + RengN1 / alphaN) / deltaT);
                               R_L_opt = m * R_star_opt;
                               Th_sc = fsolve (sc_eq_Couple_np quad p_st p_kt n_st n_kt Sum_pst Sum_prt
                                                 Sum_ptaut Sum_nst Sum_nrt Sum_ntaut SengP beta alphaP
                                                 Qin Tc L rc_nh rc_nc rc_ph rc_pc) (Tc + Fin 20);
                               dt_sc = Th_sc - Tc;
                               SengP_sc = polyval_np Sum_pst Th_sc - polyval_np Sum_pst Tc;
                               SengN_sc = polyval_np Sum_nst Th_sc - polyval_np Sum_nst Tc;
                               RengP_sc = polyval_np Sum_prt Th_sc - polyval_np Sum_prt Tc;
                               RengN_sc = polyval_np Sum_nrt Th_sc - polyval_np Sum_nrt Tc;
                               RengP1_sc = RengP_sc + dt_sc * (rc_ph + rc_pc) / L;
                               RengN1_sc = RengN_sc + dt_sc * (rc_nh + rc_nc) / L;
                               R_star_sc = (if dt_sc = 0 \<or> alphaP = 0 \<or> alphaN = 0 then 0
                                            else (RengP1_sc / alphaP + RengN1_sc / alphaN) / dt_sc);
                               Isc = (if R_star_sc \<noteq> 0 then (SengP_sc - SengN_sc) / R_star_sc else 0)
                           in Inr (eff, m, alpha, beta, alphaP, alphaN, Qin * eff, Vopt, Th_sc, Isc,
                                   R_star_opt, R_L_opt))))))"

text \<open>\<open>_solve_Th_I_at_m_single\<close> and its local function \<open>heat_balance\<close>.\<close>

definition heat_balance_single_np ::
  "np_quad_t \<Rightarrow> poly \<Rightarrow> poly \<Rightarrow> poly \<Rightarrow> poly \<Rightarrow> poly \<Rightarrow> npfloat \<Rightarrow> npfloat \<Rightarrow> npfloat \<Rightarrow> npfloat
     \<Rightarrow> npfloat \<Rightarrow> npfloat \<Rightarrow> npfloat \<Rightarrow> npfloat \<Rightarrow> npfloat" where
  "heat_balance_single_np quad s_poly k_poly S_st S_rt S_taut al m Qin Tc Lmax gamma_c_h gamma_c_c Th =
    (if Th \<le> Tc + Fin (1 / 10 ^ 6) then - Qin
     else
     (let dt = Th - Tc;
          SengP = polyval_np S_st Th - polyval_np S_st Tc;
          KengP = safe_polyint_k_np quad k_poly Tc Th k_min_default_np;
          RengP = polyval_np S_rt Th - polyval_np S_rt Tc;
          RengP1 = RengP + dt * (gamma_c_h + gamma_c_c) / Lmax;
          int_taut = quad (\<lambda>T. polyval_np S_taut Th - polyval_np S_taut T) Tc Th;
          int_rt = quad (\<lambda>T. polyval_np S_rt Th - polyval_np S_rt T) Tc Th;
          den_m = KengP
                  + 1 / (1 + m) * (dt * SengP * Th * polyval_np s_poly Th - SengP * int_taut) / RengP1
                  - 1 / (1 + m) ^ 2 * SengP ^ 2 * (int_rt + dt ^ 2 * gamma_c_h / Lmax) / (RengP1 ^ 2)
      in al * den_m - Qin))"

definition solve_Th_I_at_m_single_np ::
  "np_quad_t \<Rightarrow> np_fsolve_t \<Rightarrow> npfloat \<Rightarrow> npfloat \<Rightarrow> npfloat \<Rightarrow> npfloat \<Rightarrow> npfloat \<Rightarrow> npfloat
     \<Rightarrow> poly \<Rightarrow> poly \<Rightarrow> poly \<Rightarrow> npfloat \<Rightarrow> py_error + npfloat \<times> npfloat" where
  "solve_Th_I_at_m_single_np quad fsolve m Tc Qin Lmax gamma_c_h gamma_c_c s_poly k_poly r_poly al =
    (let S_st = polyint s_poly;
         S_rt = polyint r_poly
     in case convolve_1_0 (polyder s_poly) of
          Inl e \<Rightarrow> Inl e
        | Inr p_taut \<Rightarrow>
           (let S_taut = polyint p_taut;
                Th_opt = fsolve (heat_balance_single_np quad s_poly k_poly S_st S_rt S_taut al m
                                   Qin Tc Lmax gamma_c_h gamma_c_c) (Tc + Fin 50);
                dt = Th_opt - Tc;
                SengP = polyval_np S_st Th_opt - polyval_np S_st Tc;
                RengP = polyval_np S_rt Th_opt - polyval_np S_rt Tc;
                RengP1 = RengP + dt * (gamma_c_h + gamma_c_c) / Lmax;
                R_star = (if al \<noteq> 0 \<and> dt \<noteq> 0 then (1 / al) * (1 / dt) * RengP1 else 0);
                I = (if R_star \<noteq> 0 then \<bar>SengP / (R_star * (1 + m))\<bar> else 0)
            in Inr (Th_opt, I)))"

text \<open>\<open>_solve_Th_I_at_m_Couple\<close> and its local function \<open>heat_balance\<close>.\<close>

definition heat_balance_Couple_np ::
  "np_quad_t \<Rightarrow> poly \<Rightarrow> poly \<Rightarrow> poly \<Rightarrow> poly \<Rightarrow> poly \<Rightarrow> poly \<Rightarrow> poly \<Rightarrow> poly \<Rightarrow> poly \<Rightarrow> poly
     \<Rightarrow> npfloat \<Rightarrow> npfloat \<Rightarrow> npfloat \<Rightarrow> npfloat \<Rightarrow> npfloat \<Rightarrow> npfloat \<Rightarrow> npfloat \<Rightarrow> npfloat \<Rightarrow> npfloat
     \<Rightarrow> npfloat \<Rightarrow> npfloat \<Rightarrow> npfloat" where
  "heat_balance_Couple_np quad p_s p_k n_s n_k S_pst S_prt S_nst S_nrt S_ptaut S_ntaut
       m be Tc Qin Lmax rc_nh rc_nc rc_ph rc_pc aP Th =
    (if Th \<le> Tc + Fin (1 / 10 ^ 6) then - Qin
     else
     (let dt = Th - Tc;
          SengP = polyval_np S_pst Th - polyval_np S_pst Tc;
          SengN = polyval_np S_nst Th - polyval_np S_nst Tc;
          KengP = safe_polyint_k_np quad p_k Tc Th k_min_default_np;
          KengN = safe_polyint_k_np quad n_k Tc Th k_min_default_np;
          RengP = polyval_np S_prt Th - polyval_np S_prt Tc;
          RengN = polyval_np S_nrt Th - polyval_np S_nrt Tc;
          RengP1 = RengP + dt * (rc_ph + rc_pc) / Lmax;
          RengN1 = RengN + dt * (rc_nh + rc_nc) / Lmax;
          int_ptaut = quad (\<lambda>T. polyval_np S_ptaut Th - polyval_np S_ptaut T) Tc Th;
          int_ntaut = quad (\<lambda>T. polyval_np S_ntaut Th - polyval_np S_ntaut T) Tc Th;
          int_prt = quad (\<lambda>T. polyval_np S_prt Th - polyval_np S_prt T) Tc Th;
          int_nrt = quad (\<lambda>T. polyval_np S_nrt Th - polyval_np S_nrt T) Tc Th;
          den_common = (1 + m) * (RengP1 + inverse be * RengN1);
          den_common_sq = (1 + m) ^ 2 * (RengP1 + inverse be * RengN1) ^ 2;
          S_diff = SengP - SengN;
          denP = KengP + (S_diff * Th * polyval_np p_s Th * dt - S_diff * int_ptaut) / den_common
                 - S_diff ^ 2 * (int_prt + dt ^ 2 * rc_ph / Lmax) / den_common_sq;
          denN = KengN
                 - (S_diff * Th * polyval_np n_s Th * dt - S_diff * int_ntaut)
                   / ((1 + m) * (be * RengP1 + RengN1))
                 - S_diff ^ 2 * (int_nrt + dt ^ 2 * rc_nh / Lmax)
                   / ((1 + m) ^ 2 * (be * RengP1 + RengN1) ^ 2)
      in aP * (denP + be * denN) - Qin))"

definition solve_Th_I_at_m_Couple_np ::
  "np_quad_t \<Rightarrow> np_fsolve_t \<Rightarrow> npfloat \<Rightarrow> npfloat \<Rightarrow> npfloat \<Rightarrow> npfloat \<Rightarrow> npfloat \<Rightarrow> npfloat
     \<Rightarrow> npfloat \<Rightarrow> npfloat \<Rightarrow> npfloat \<Rightarrow> poly \<Rightarrow> poly \<Rightarrow> poly \<Rightarrow> poly \<Rightarrow> poly \<Rightarrow> poly \<Rightarrow> npfloat
     \<Rightarrow> py_error + npfloat \<times> npfloat" where
  "solve_Th_I_at_m_Couple_np quad fsolve m be Tc Qin Lmax rc_nh rc_nc rc_ph rc_pc
       p_s p_k p_r n_s n_k n_r aP =
    (let S_pst = polyint p_s; S_prt = polyint p_r;
         S_nst = polyint n_s; S_nrt = polyint n_r
     in case convolve_1_0 (polyder p_s) of
          Inl e \<Rightarrow> Inl e
        | Inr p_taut \<Rightarrow>
           (let S_ptaut = polyint p_taut
            in case convolve_1_0 (polyder n_s) of
                 Inl e \<Rightarrow> Inl e
               | Inr n_taut \<Rightarrow>
                  (let S_ntaut = polyint n_taut;
                       Th_opt = fsolve (heat_balance_Couple_np quad p_s p_k n_s n_k S_pst S_prt S_nst
                                          S_nrt S_ptaut S_ntaut m be Tc Qin Lmax
                                          rc_nh rc_nc rc_ph rc_pc aP) (Tc + Fin 50);
                       dt = Th_opt - Tc;
                       SengP = polyval_np S_pst Th_opt - polyval_np S_pst Tc;
                       SengN = polyval_np S_nst Th_opt - polyval_np S_nst Tc;
                       RengP = polyval_np S_prt Th_opt - polyval_np S_prt Tc;
                       RengN = polyval_np S_nrt Th_opt - polyval_np S_nrt Tc;
                       RengP1 = RengP + dt * (rc_ph + rc_pc) / Lmax;
                       RengN1 = RengN + dt * (rc_nh + rc_nc) / Lmax;
                       aN = aP * be;
                       R_star = (if dt \<noteq> 0 \<and> aP \<noteq> 0 \<and> aN \<noteq> 0
                                 then (RengP1 / aP + RengN1 / aN) / dt else 0);
                       Voc_local = SengP - SengN;
                       I = (if R_star \<noteq> 0 then Voc_local / (R_star * (1 + m)) else 0)
                   in Inr (Th_opt, I))))"

text \<open>The reference routines in this arithmetic.\<close>

definition quad_ref_np :: np_quad_t where
  "quad_ref_np f a b = (b - a) * f ((a + b) / Fin 2)"

definition fsolve_ref_np :: np_fsolve_t where
  "fsolve_ref_np f x0 = (if f (x0 + 1) = f x0 then x0 else x0 - f x0 / (f (x0 + 1) - f x0))"

text \<open>
  The contact-augmented integrated resistivity of a leg over an interval, and the local
  \<open>R_star_sc\<close> (in the solvers: \<open>R_star\<close>) as the source writes it from the conductance
  parameter, the temperature difference and that resistivity.
\<close>

definition Reng1_np :: "poly \<Rightarrow> npfloat \<Rightarrow> npfloat \<Rightarrow> npfloat \<Rightarrow> npfloat \<Rightarrow> npfloat \<Rightarrow> npfloat" where
  "Reng1_np p_rt tc t L g_h g_c =
     polyval_np (polyint p_rt) t - polyval_np (polyint p_rt) tc + (t - tc) * (g_h + g_c) / L"

definition R_star_single_np :: "npfloat \<Rightarrow> npfloat \<Rightarrow> npfloat \<Rightarrow> npfloat" where
  "R_star_single_np al dt R1 = (if al \<noteq> 0 \<and> dt \<noteq> 0 then (1 / al) * (1 / dt) * R1 else 0)"

definition R_star_Couple_np :: "npfloat \<Rightarrow> npfloat \<Rightarrow> npfloat \<Rightarrow> npfloat \<Rightarrow> npfloat \<Rightarrow> npfloat" where
  "R_star_Couple_np aP aN dt R1P R1N =
     (if dt = 0 \<or> aP = 0 \<or> aN = 0 then 0 else (R1P / aP + R1N / aN) / dt)"

section \<open>The load-curve sampler\<close>

text \<open>\<open>np.linspace(start, stop, num)\<close>.\<close>

definition linspace :: "real \<Rightarrow> real \<Rightarrow> nat \<Rightarrow> real list" where
  "linspace start stop num =
     map (\<lambda>k. start + real k * ((stop - start) / real (num - 1))) [0..<num]"

text \<open>The local function \<open>heat_balance_eq\<close> of \<open>_generate_single_leg_curve_data\<close>.\<close>

definition heat_balance_eq_single ::
  "quad_t \<Rightarrow> poly \<Rightarrow> poly \<Rightarrow> poly \<Rightarrow> poly \<Rightarrow> poly \<Rightarrow> real \<Rightarrow> real \<Rightarrow> real \<Rightarrow> real \<Rightarrow> real
     \<Rightarrow> real \<Rightarrow> real \<Rightarrow> real \<Rightarrow> real" where
  "heat_balance_eq_single quad s_poly k_poly S_st S_rt S_taut al Qin Tc Lmax gamma_c_h gamma_c_c
       Th m =
    (if m < 0 then Qin
     else if Th \<le> Tc + 1 / 10 ^ 6 then - Qin
     else
     (let dt = Th - Tc;
          SengP = polyval S_st Th - polyval S_st Tc;
          KengP = safe_polyint_k quad k_poly Tc Th k_min_default;
          RengP = polyval S_rt Th - polyval S_rt Tc;
          RengP1 = RengP + dt * (gamma_c_h + gamma_c_c) / Lmax
      in if \<bar>RengP1\<bar> < 1 / 10 ^ 12 then al * KengP - Qin
         else
         (let int_taut = quad (\<lambda>T. polyval S_taut Th - polyval S_taut T) Tc Th;
              int_rt = quad (\<lambda>T. polyval S_rt Th - polyval S_rt T) Tc Th;
              den_m = KengP
                      + 1 / (1 + m) * (dt * SengP * Th * polyval s_poly Th - SengP * int_taut)
                        / RengP1
                      - 1 / (1 + m) ^ 2 * SengP ^ 2 * (int_rt + dt ^ 2 * gamma_c_h / Lmax)
                        / (RengP1 ^ 2);
              q_in_calc = al * den_m
          in q_in_calc - Qin)))"

text \<open>
  One turn of the loop of \<open>_generate_single_leg_curve_data\<close>: the six values it appends
  (th, v_load, eta, m, i, rstar), or None where it continues with the next sample.
\<close>

type_synonym point = "real \<times> real \<times> real \<times> real \<times> real \<times> real"

definition sample_single ::
  "quad_t \<Rightarrow> brentq_t \<Rightarrow> poly \<Rightarrow> poly \<Rightarrow> poly \<Rightarrow> poly \<Rightarrow> poly \<Rightarrow> real \<Rightarrow> real \<Rightarrow> real \<Rightarrow> real
     \<Rightarrow> real \<Rightarrow> real \<Rightarrow> real \<Rightarrow> point option" where
  "sample_single quad brentq s_poly k_poly S_st S_rt S_taut al Qin Tc Lmax gamma_c_h gamma_c_c
       Th_val =
    (case brentq (heat_balance_eq_single quad s_poly k_poly S_st S_rt S_taut al Qin Tc Lmax
                    gamma_c_h gamma_c_c Th_val) (1 / 10 ^ 12) (10 ^ 7) of
       None \<Rightarrow> None
     | Some m_val \<Rightarrow>
        (let dt = Th_val - Tc
         in if dt \<le> 0 then None
            else
            (let SengP = polyval S_st Th_val - polyval S_st Tc;
                 RengP = polyval S_rt Th_val - polyval S_rt Tc;
                 RengP1 = RengP + dt * (gamma_c_h + gamma_c_c) / Lmax;
                 R_star = (if al \<noteq> 0 \<and> dt \<noteq> 0 then (1 / al) * (1 / dt) * RengP1 else 0)
             in if R_star \<le> 0 then None
                else
                (let I = \<bar>SengP / (R_star * (1 + m_val))\<bar>;
                     V_load = I * m_val * R_star;
                     P_out = I * V_load;
                     eta = P_out / Qin * 100
                 in Some (Th_val, V_load, eta, m_val, I, R_star)))))"

text \<open>The local function \<open>heat_balance_eq\<close> of \<open>_generate_Couple_curve_data\<close>.\<close>

definition heat_balance_eq_Couple ::
  "quad_t \<Rightarrow> poly \<Rightarrow> poly \<Rightarrow> poly \<Rightarrow> poly \<Rightarrow> poly \<Rightarrow> poly \<Rightarrow> poly \<Rightarrow> poly \<Rightarrow> poly \<Rightarrow> poly
     \<Rightarrow> real \<Rightarrow> real \<Rightarrow> real \<Rightarrow> real \<Rightarrow> real \<Rightarrow> real \<Rightarrow> real \<Rightarrow> real \<Rightarrow> real \<Rightarrow> real \<Rightarrow> real
     \<Rightarrow> real" where
  "heat_balance_eq_Couple quad p_s p_k n_s n_k S_pst S_prt S_nst S_nrt S_ptaut S_ntaut
       aP be Qin Tc Lmax rc_ph rc_pc rc_nh rc_nc Th m =
    (if m < 0 then Qin
     else if Th \<le> Tc + 1 / 10 ^ 6 then - Qin
     else
     (let dt = Th - Tc;
          SengP = polyval S_pst Th - polyval S_pst Tc;
          SengN = polyval S_nst Th - polyval S_nst Tc;
          KengP = safe_polyint_k quad p_k Tc Th k_min_default;
          KengN = safe_polyint_k quad n_k Tc Th k_min_default;
          RengP = polyval S_prt Th - polyval S_prt Tc;
          RengN = polyval S_nrt Th - polyval S_nrt Tc;
          RengP1 = RengP + dt * (rc_ph + rc_pc) / Lmax;
          RengN1 = RengN + dt * (rc_nh + rc_nc) / Lmax
      in if \<bar>RengP1 + inverse be * RengN1\<bar> < 1 / 10 ^ 12 then aP * (KengP + be * KengN) - Qin
         else
         (let int_ptaut = quad (\<lambda>T. polyval S_ptaut Th - polyval S_ptaut T) Tc Th;
              int_ntaut = quad (\<lambda>T. polyval S_ntaut Th - polyval S_ntaut T) Tc Th;
              int_prt = quad (\<lambda>T. polyval S_prt Th - polyval S_prt T) Tc Th;
              int_nrt = quad (\<lambda>T. polyval S_nrt Th - polyval S_nrt T) Tc Th;
              den_common = (1 + m) * (RengP1 + inverse be * RengN1);
              den_common_sq = (1 + m) ^ 2 * (RengP1 + inverse be * RengN1) ^ 2;
              S_diff = SengP - SengN;
              denP = KengP + (S_diff * Th * polyval p_s Th * dt - S_diff * int_ptaut) / den_common
                     - S_diff ^ 2 * (int_prt + dt ^ 2 * rc_ph / Lmax) / den_common_sq;
              denN = KengN
                     - (S_diff * Th * polyval n_s Th * dt - S_diff * int_ntaut)
                       / ((1 + m) * (be * RengP1 + RengN1))
                     - S_diff ^ 2 * (int_nrt + dt ^ 2 * rc_nh / Lmax)
                       / ((1 + m) ^ 2 * (be * RengP1 + RengN1) ^ 2)
          in aP * (denP + be * denN) - Qin)))"

text \<open>One turn of the loop of \<open>_generate_Couple_curve_data\<close>.\<close>

definition sample_Couple ::
  "quad_t \<Rightarrow> brentq_t \<Rightarrow> poly \<Rightarrow> poly \<Rightarrow> poly \<Rightarrow> poly \<Rightarrow> poly \<Rightarrow> poly \<Rightarrow> poly \<Rightarrow> poly \<Rightarrow> poly
     \<Rightarrow> poly \<Rightarrow> real \<Rightarrow> real \<Rightarrow> real \<Rightarrow> real \<Rightarrow> real \<Rightarrow> real \<Rightarrow> real \<Rightarrow> real \<Rightarrow> real \<Rightarrow> real
     \<Rightarrow> point option" where
  "sample_Couple quad brentq p_s p_k n_s n_k S_pst S_prt S_nst S_nrt S_ptaut S_ntaut
       aP be Qin Tc Lmax rc_ph rc_pc rc_nh rc_nc Th_val =
    (case brentq (heat_balance_eq_Couple quad p_s p_k n_s n_k S_pst S_prt S_nst S_nrt S_ptaut
                    S_ntaut aP be Qin Tc Lmax rc_ph rc_pc rc_nh rc_nc Th_val)
                 (1 / 10 ^ 12) (10 ^ 7) of
       None \<Rightarrow> None
     | Some m_val \<Rightarrow>
        (let dt = Th_val - Tc
         in if dt \<le> 0 then None
            else
            (let SengP = polyval S_pst Th_val - polyval S_pst Tc;
                 SengN = polyval S_nst Th_val - polyval S_nst Tc;
                 RengP = polyval S_prt Th_val - polyval S_prt Tc;
                 RengN = polyval S_nrt Th_val - polyval S_nrt Tc;
                 RengP1 = polyval S_prt Th_val - polyval S_prt Tc + dt * (rc_ph + rc_pc) / Lmax;
                 RengN1 = polyval S_nrt Th_val - polyval S_nrt Tc + dt * (rc_nh + rc_nc) / Lmax;
                 aN = aP * be;
                 R_star = (if dt \<noteq> 0 \<and> aP \<noteq> 0 \<and> aN \<noteq> 0
                           then (RengP1 / aP + RengN1 / aN) / dt else 0)
             in if R_star \<le> 0 then None
                else
                (let Voc_local = SengP - SengN;
                     I = Voc_local / (R_star * (1 + m_val));
                     V_load = I * m_val * R_star;
                     P_out = I * V_load;
                     eta = P_out / Qin * 100
                 in Some (Th_val, V_load, eta, m_val, I, R_star)))))"

text \<open>The loop over \<open>Th_range\<close>: the points appended, in the order of the samples.\<close>

fun sweep :: "(real \<Rightarrow> point option) \<Rightarrow> real list \<Rightarrow> point list" where
  "sweep f [] = []"
| "sweep f (Th_val # rest) =
     (case f Th_val of None \<Rightarrow> sweep f rest | Some pt \<Rightarrow> pt # sweep f rest)"

fun pt_th :: "point \<Rightarrow> real" where "pt_th (t, v, e, ml, il, r) = t"
fun pt_v_load :: "point \<Rightarrow> real" where "pt_v_load (t, v, e, ml, il, r) = v"
fun pt_eta :: "point \<Rightarrow> real" where "pt_eta (t, v, e, ml, il, r) = e"
fun pt_m :: "point \<Rightarrow> real" where "pt_m (t, v, e, ml, il, r) = ml"
fun pt_i :: "point \<Rightarrow> real" where "pt_i (t, v, e, ml, il, r) = il"
fun pt_rstar :: "point \<Rightarrow> real" where "pt_rstar (t, v, e, ml, il, r) = r"

section \<open>The computation of \<open>on_calc\<close> and the dictionary \<open>last_results\<close>\<close>

text \<open>
  What \<open>on_calc\<close> has read from the form when the computation starts (temperatures in
  kelvin, lengths in metres, the property texts already fitted), and the dictionary
  \<open>last_results\<close> it stores: the inputs, the tuple of the optimizer under \<open>opt\<close>, and the
  open-circuit and operating-point values.
\<close>

record calc_inputs =
  Qin :: real
  Tc :: real
  Tmax :: real
  Lmax :: real

record single_inputs = calc_inputs +
  s_poly :: poly
  k_poly :: poly
  r_poly :: poly
  gamma_c_h :: real
  gamma_c_c :: real

record couple_inputs = calc_inputs +
  p_s_poly :: poly
  p_k_poly :: poly
  p_r_poly :: poly
  n_s_poly :: poly
  n_k_poly :: poly
  n_r_poly :: poly
  rc_ph :: real
  rc_pc :: real
  rc_nh :: real
  rc_nc :: real

record ('i, 'o) results =
  inp :: 'i
  opt :: 'o
  Th_oc :: real
  Voc :: real
  Th_opt :: real
  I_opt :: real

type_synonym single_results = "(single_inputs, single_opt) results"
type_synonym couple_results = "(couple_inputs, couple_opt) results"

definition on_calc_single :: "quad_t \<Rightarrow> fsolve_t \<Rightarrow> single_inputs \<Rightarrow> py_error + single_results" where
  "on_calc_single quad fsolve x =
    (case run_calc_single quad fsolve (s_poly x) (k_poly x) (r_poly x) (Qin x) (Tc x) (Tmax x)
            (Lmax x) (gamma_c_h x) (gamma_c_c x) of
       Inl e \<Rightarrow> Inl e
     | Inr r \<Rightarrow>
        (let Th_oc = fsolve (eq_oc_single quad (k_poly x) (alpha r) (Qin x) (Tc x)) (Tmax x);
             Voc = \<bar>polyval (polyint (s_poly x)) Th_oc - polyval (polyint (s_poly x)) (Tc x)\<bar>
         in case solve_Th_I_at_m_single quad fsolve (m_opt r) (Tc x) (Qin x) (Lmax x)
                   (gamma_c_h x) (gamma_c_c x) (s_poly x) (k_poly x) (r_poly x) (alpha r) of
              Inl e \<Rightarrow> Inl e
            | Inr (th_o, Iopt) \<Rightarrow>
                Inr \<lparr>inp = x, opt = r, Th_oc = Th_oc, Voc = Voc, Th_opt = th_o, I_opt = Iopt\<rparr>))"

definition on_calc_Couple :: "quad_t \<Rightarrow> fsolve_t \<Rightarrow> couple_inputs \<Rightarrow> py_error + couple_results" where
  "on_calc_Couple quad fsolve x =
    (case run_calc_Couple quad fsolve (Qin x) (Tc x) (Tmax x) (Lmax x)
            (rc_nh x) (rc_nc x) (rc_ph x) (rc_pc x)
            (p_s_poly x) (p_k_poly x) (p_r_poly x) (n_s_poly x) (n_k_poly x) (n_r_poly x) of
       Inl e \<Rightarrow> Inl e
     | Inr r \<Rightarrow>
        (let Th_oc = fsolve (eq_oc_Couple quad (p_k_poly x) (n_k_poly x) (alphaP r) (alphaN r)
                               (Qin x) (Tc x)) (Tmax x);
             Sum_pst = polyint (p_s_poly x);
             Sum_nst = polyint (n_s_poly x);
             Voc = (polyval Sum_pst Th_oc - polyval Sum_pst (Tc x))
                   - (polyval Sum_nst Th_oc - polyval Sum_nst (Tc x))
         in case solve_Th_I_at_m_Couple quad fsolve (m_opt r) (beta_opt r) (Tc x) (Qin x) (Lmax x)
                   (rc_nh x) (rc_nc x) (rc_ph x) (rc_pc x)
                   (p_s_poly x) (p_k_poly x) (p_r_poly x) (n_s_poly x) (n_k_poly x) (n_r_poly x)
                   (alphaP r) of
              Inl e \<Rightarrow> Inl e
            | Inr (th_o, Iopt) \<Rightarrow>
                Inr \<lparr>inp = x, opt = r, Th_oc = Th_oc, Voc = Voc, Th_opt = th_o, I_opt = Iopt\<rparr>))"

section \<open>Curve generation\<close>

text \<open>The dictionary of sequences the generators return.\<close>

record curve =
  th :: "real list"
  v_load :: "real list"
  eta :: "real list"
  m :: "real list"
  i :: "real list"
  rstar :: "real list"

definition close_curve :: "'a single_opt_scheme \<Rightarrow> real \<Rightarrow> real \<Rightarrow> point list \<Rightarrow> curve" where
  "close_curve r th_oc voc pts =
    (if length pts \<ge> 1
     then \<lparr>th = [Th_sc r] @ map pt_th pts @ [th_oc],
           v_load = [0] @ map pt_v_load pts @ [voc],
           eta = [0] @ map pt_eta pts @ [0],
           m = [0] @ map pt_m pts @ [10 ^ 9],
           i = [Isc r] @ map pt_i pts @ [0],
           rstar = [R_star_opt r] @ map pt_rstar pts @ [R_star_opt r]\<rparr>
     else \<lparr>th = map pt_th pts, v_load = map pt_v_load pts, eta = map pt_eta pts,
           m = map pt_m pts, i = map pt_i pts, rstar = map pt_rstar pts\<rparr>)"

definition generate_single_leg_curve_data ::
  "quad_t \<Rightarrow> brentq_t \<Rightarrow> single_results \<Rightarrow> py_error + curve" where
  "generate_single_leg_curve_data quad brentq p =
    (let x = inp p;
         S_st = polyint (s_poly x);
         S_rt = polyint (r_poly x)
     in case convolve_1_0 (polyder (s_poly x)) of
          Inl e \<Rightarrow> Inl e
        | Inr p_taut \<Rightarrow>
           (let S_taut = polyint p_taut;
                Th_range = linspace (Th_sc (opt p)) (Th_oc p) 50;
                pts = sweep (sample_single quad brentq (s_poly x) (k_poly x) S_st S_rt S_taut
                               (alpha (opt p)) (Qin x) (Tc x) (Lmax x)
                               (gamma_c_h x) (gamma_c_c x)) Th_range
            in Inr (close_curve (opt p) (Th_oc p) (Voc p) pts)))"

definition generate_Couple_curve_data ::
  "quad_t \<Rightarrow> brentq_t \<Rightarrow> couple_results \<Rightarrow> py_error + curve" where
  "generate_Couple_curve_data quad brentq p =
    (let x = inp p;
         S_pst = polyint (p_s_poly x); S_prt = polyint (p_r_poly x);
         S_nst = polyint (n_s_poly x); S_nrt = polyint (n_r_poly x)
     in case convolve_1_0 (polyder (p_s_poly x)) of
          Inl e \<Rightarrow> Inl e
        | Inr p_taut \<Rightarrow>
           (let S_ptaut = polyint p_taut
            in case convolve_1_0 (polyder (n_s_poly x)) of
                 Inl e \<Rightarrow> Inl e
               | Inr n_taut \<Rightarrow>
                  (let S_ntaut = polyint n_taut;
                       Th_range = linspace (Th_sc (opt p)) (Th_oc p) 50;
                       pts = sweep (sample_Couple quad brentq (p_s_poly x) (p_k_poly x)
                                      (n_s_poly x) (n_k_poly x) S_pst S_prt S_nst S_nrt
                                      S_ptaut S_ntaut (alphaP (opt p)) (beta_opt (opt p))
                                      (Qin x) (Tc x) (Lmax x)
                                      (rc_ph x) (rc_pc x) (rc_nh x) (rc_nc x)) Th_range
                   in Inr (close_curve (opt p) (Th_oc p) (Voc p) pts))))"

text \<open>
  \<open>on_generate_curves\<close>: \<open>last_results\<close> is None until an optimization has succeeded, and
  its key \<open>mode\<close> selects the generator. The outcomes are the information box, the two
  error boxes, and the call of \<open>_plot_curves\<close> on the data.
\<close>

datatype last_results = Single single_results | Couple couple_results

datatype curves_outcome =
    Info_run_optimization_first
  | Error_insufficient_data_points
  | Error_generating_curves py_error
  | Plot_curves curve

definition on_generate_curves :: "quad_t \<Rightarrow> brentq_t \<Rightarrow> last_results option \<Rightarrow> curves_outcome" where
  "on_generate_curves quad brentq last_results =
    (case last_results of
       None \<Rightarrow> Info_run_optimization_first
     | Some res \<Rightarrow>
        (case (case res of Single p \<Rightarrow> generate_single_leg_curve_data quad brentq p
                         | Couple p \<Rightarrow> generate_Couple_curve_data quad brentq p) of
           Inl e \<Rightarrow> Error_generating_curves e
         | Inr data \<Rightarrow>
            if length (v_load data) < 3 then Error_insufficient_data_points
            else Plot_curves data))"

section \<open>Data parsing\<close>

text \<open>
  Texts are ASCII strings. The built-in \<open>float\<close>, \<open>np.polyfit\<close> after its argument checks,
  and \<open>eval\<close> are arguments of the model: \<open>pyfloat\<close> gives None where \<open>float\<close> raises,
  \<open>eval_expr expr x\<close> is the value of \<open>expr\<close> with \<open>T\<close> and \<open>t\<close> bound to \<open>x\<close>.
\<close>

type_synonym pyfloat_t = "string \<Rightarrow> real option"
type_synonym polyfit_t = "real list \<Rightarrow> real list \<Rightarrow> nat \<Rightarrow> poly"
type_synonym eval_t = "string \<Rightarrow> real \<Rightarrow> py_error + real"

text \<open>The characters \<open>str.isspace\<close> and the class \<open>\s\<close> accept.\<close>

definition py_isspace :: "char \<Rightarrow> bool" where
  "py_isspace c \<longleftrightarrow> c \<in> {CHR 0x09, CHR 0x0A, CHR 0x0B, CHR 0x0C, CHR 0x0D,
                          CHR 0x1C, CHR 0x1D, CHR 0x1E, CHR 0x1F, CHR '' ''}"

definition is_digit :: "char \<Rightarrow> bool" where
  "is_digit c \<longleftrightarrow> c \<in> set ''0123456789''"

definition skip_ws :: "string \<Rightarrow> string" where
  "skip_ws s = dropWhile py_isspace s"

definition py_strip :: "string \<Rightarrow> string" where
  "py_strip s = rev (dropWhile py_isspace (rev (dropWhile py_isspace s)))"

fun split_from :: "string \<Rightarrow> string \<Rightarrow> string list" where
  "split_from cur [] = (if cur = [] then [] else [cur])"
| "split_from cur (c # cs) =
     (if py_isspace c then (if cur = [] then split_from [] cs else cur # split_from [] cs)
      else split_from (cur @ [c]) cs)"

text \<open>\<open>s.split()\<close>.\<close>

definition py_split :: "string \<Rightarrow> string list" where
  "py_split s = split_from [] s"

text \<open>\<open>s.replace(a, b)\<close> for a single character \<open>a\<close>.\<close>

definition py_replace :: "char \<Rightarrow> string \<Rightarrow> string \<Rightarrow> string" where
  "py_replace a b s = concat (map (\<lambda>c. if c = a then b else [c]) s)"

definition strip_prefix :: "string \<Rightarrow> string \<Rightarrow> string option" where
  "strip_prefix pre s = (if take (length pre) s = pre then Some (drop (length pre) s) else None)"

text \<open>\<open>re.search\<close>: the match at the leftmost position where the pattern matches.\<close>

fun re_search :: "(string \<Rightarrow> 'a option) \<Rightarrow> string \<Rightarrow> 'a option" where
  "re_search mt [] = mt []"
| "re_search mt (c # cs) = (case mt (c # cs) of Some g \<Rightarrow> Some g | None \<Rightarrow> re_search mt cs)"

text \<open>
  The four patterns of \<open>extract_data_from_text\<close>, matched at the head of a string. Each
  class of the patterns excludes the character that must follow it, so the greedy match
  is the only one. \<open>match_assign\<close> is the common prefix (the name, spaces, the equals sign,
  spaces), \<open>bracket_group\<close> is the bracketed group and returns its content.
\<close>

definition match_assign :: "string \<Rightarrow> string \<Rightarrow> string option" where
  "match_assign varname s =
     (case strip_prefix varname s of
        None \<Rightarrow> None
      | Some r \<Rightarrow>
         (case skip_ws r of
            [] \<Rightarrow> None
          | c # r' \<Rightarrow> if c = CHR ''='' then Some (skip_ws r') else None))"

definition bracket_group :: "string \<Rightarrow> string option" where
  "bracket_group s =
     (case s of
        [] \<Rightarrow> None
      | c # r \<Rightarrow>
         if c = CHR ''[''
         then (let g = takeWhile (\<lambda>d. d \<noteq> CHR '']'') r;
                   rest = dropWhile (\<lambda>d. d \<noteq> CHR '']'') r
               in if g \<noteq> [] \<and> rest \<noteq> [] then Some g else None)
         else None)"

definition in_factor_class :: "char \<Rightarrow> bool" where
  "in_factor_class c \<longleftrightarrow> c = CHR ''-'' \<or> is_digit c \<or> c = CHR ''.'' \<or> c = CHR ''e'' \<or> c = CHR ''E''"

definition match_scaled :: "string \<Rightarrow> string \<Rightarrow> (string \<times> string) option" where
  "match_scaled varname s =
     (case match_assign varname s of
        None \<Rightarrow> None
      | Some r \<Rightarrow>
         (let f = takeWhile in_factor_class r
          in if f = [] then None
             else (case skip_ws (dropWhile in_factor_class r) of
                     [] \<Rightarrow> None
                   | c # r' \<Rightarrow>
                      if c = CHR ''*''
                      then (case bracket_group (skip_ws r') of
                              None \<Rightarrow> None | Some g \<Rightarrow> Some (f, g))
                      else None)))"

definition match_reciprocal :: "string \<Rightarrow> string \<Rightarrow> string option" where
  "match_reciprocal varname s =
     (case match_assign varname s of
        None \<Rightarrow> None
      | Some r \<Rightarrow>
         (case strip_prefix ''1./'' r of
            None \<Rightarrow> None
          | Some r' \<Rightarrow> bracket_group (skip_ws r')))"

definition match_negated :: "string \<Rightarrow> string \<Rightarrow> string option" where
  "match_negated varname s =
     (case match_assign varname s of
        None \<Rightarrow> None
      | Some r \<Rightarrow>
         (case strip_prefix ''-'' r of
            None \<Rightarrow> None
          | Some r' \<Rightarrow> bracket_group (skip_ws r')))"

definition match_literal :: "string \<Rightarrow> string \<Rightarrow> string option" where
  "match_literal varname s =
     (case match_assign varname s of
        None \<Rightarrow> None
      | Some r \<Rightarrow> bracket_group r)"

text \<open>The list comprehension over \<open>float\<close>: the first token \<open>float\<close> refuses raises.\<close>

fun float_list :: "pyfloat_t \<Rightarrow> string list \<Rightarrow> py_error + real list" where
  "float_list pyfloat [] = Inr []"
| "float_list pyfloat (x # xs) =
     (case pyfloat x of
        None \<Rightarrow> Inl (FloatValueError x)
      | Some v \<Rightarrow>
         (case float_list pyfloat xs of
            Inl e \<Rightarrow> Inl e
          | Inr vs \<Rightarrow> Inr (v # vs)))"

text \<open>
  The numbers of a group: commas become spaces, the group is split, \<open>E\<close> becomes \<open>e\<close> in
  each token, and \<open>float\<close> reads it.
\<close>

definition group_floats :: "pyfloat_t \<Rightarrow> string \<Rightarrow> py_error + real list" where
  "group_floats pyfloat g =
     float_list pyfloat (map (py_replace (CHR ''E'') ''e'') (py_split (py_replace (CHR '','') '' '' g)))"

definition extract_data_from_text ::
  "pyfloat_t \<Rightarrow> string \<Rightarrow> string \<Rightarrow> py_error + real list option" where
  "extract_data_from_text pyfloat txt varname =
    (let txt = py_replace (CHR '';'') [] (py_replace (CHR 0x0A) [] txt)
     in case re_search (match_scaled varname) txt of
          Some (f, g) \<Rightarrow>
            (case pyfloat f of
               None \<Rightarrow> Inl (FloatValueError f)
             | Some factor \<Rightarrow>
                (case group_floats pyfloat g of
                   Inl e \<Rightarrow> Inl e
                 | Inr arr \<Rightarrow> Inr (Some (map (\<lambda>v. v * factor) arr))))
        | None \<Rightarrow>
           (case re_search (match_reciprocal varname) txt of
              Some g \<Rightarrow>
                (case group_floats pyfloat g of
                   Inl e \<Rightarrow> Inl e
                 | Inr arr \<Rightarrow> Inr (Some (map (\<lambda>v. 1 / v) arr)))
            | None \<Rightarrow>
               (case re_search (match_negated varname) txt of
                  Some g \<Rightarrow>
                    (case group_floats pyfloat g of
                       Inl e \<Rightarrow> Inl e
                     | Inr arr \<Rightarrow> Inr (Some (map uminus arr)))
                | None \<Rightarrow>
                   (case re_search (match_literal varname) txt of
                      Some g \<Rightarrow>
                        (case group_floats pyfloat g of
                           Inl e \<Rightarrow> Inl e
                         | Inr arr \<Rightarrow> Inr (Some arr))
                    | None \<Rightarrow> Inr None))))"

text \<open>The argument checks of \<open>np.polyfit\<close> that one-dimensional arrays can fail.\<close>

definition np_polyfit :: "polyfit_t \<Rightarrow> real list \<Rightarrow> real list \<Rightarrow> nat \<Rightarrow> py_error + poly" where
  "np_polyfit polyfit x y deg =
     (if x = [] then Inl (TypeError ''expected non-empty vector for x'')
      else if length x \<noteq> length y then Inl (TypeError ''expected x and y to have same length'')
      else Inr (polyfit x y deg))"

fun eval_all :: "eval_t \<Rightarrow> string \<Rightarrow> real list \<Rightarrow> py_error + real list" where
  "eval_all eval_expr expr [] = Inr []"
| "eval_all eval_expr expr (x # xs) =
     (case eval_expr expr x of
        Inl e \<Rightarrow> Inl e
      | Inr v \<Rightarrow>
         (case eval_all eval_expr expr xs of
            Inl e \<Rightarrow> Inl e
          | Inr vs \<Rightarrow> Inr (v # vs)))"

text \<open>The names of the two arrays \<open>parse_input\<close> looks for, by property.\<close>

definition array_names :: "string \<Rightarrow> (string \<times> string) option" where
  "array_names varname =
     (if varname = ''S'' then Some (''Ts'', ''s_t'')
      else if varname = ''k'' then Some (''Tk'', ''k_t'')
      else if varname = ''rho'' then Some (''Tr'', ''r_t'')
      else None)"

definition is_bracketed :: "string \<Rightarrow> bool" where
  "is_bracketed txt \<longleftrightarrow> take 1 txt = ''['' \<and> txt \<noteq> [] \<and> last txt = CHR '']''"

definition is_formula :: "string \<Rightarrow> bool" where
  "is_formula txt \<longleftrightarrow> (CHR ''T'' \<in> set txt \<or> CHR ''t'' \<in> set txt) \<and> CHR ''='' \<notin> set txt"

definition parse_failure :: "string \<Rightarrow> py_error" where
  "parse_failure varname = ValueError (''Failed to parse '' @ varname @ '' input'')"

text \<open>The last three statements of \<open>parse_input\<close>: coefficient list, formula, failure.\<close>

definition parse_rest ::
  "pyfloat_t \<Rightarrow> polyfit_t \<Rightarrow> eval_t \<Rightarrow> string \<Rightarrow> string \<Rightarrow> nat \<Rightarrow> py_error + poly" where
  "parse_rest pyfloat polyfit eval_expr txt varname deg =
    (if is_bracketed txt
     then float_list pyfloat
            (py_split (py_replace (CHR '','') '' '' (py_replace (CHR '';'') [] (butlast (tl txt)))))
     else if is_formula txt
     then (let expr = py_replace (CHR ''^'') ''**'' txt;
               xs = linspace 300 900 13
           in case eval_all eval_expr expr xs of
                Inl e \<Rightarrow> Inl e
              | Inr ys \<Rightarrow> np_polyfit polyfit xs ys deg)
     else Inl (parse_failure varname))"

definition parse_input ::
  "pyfloat_t \<Rightarrow> polyfit_t \<Rightarrow> eval_t \<Rightarrow> string \<Rightarrow> string \<Rightarrow> nat \<Rightarrow> py_error + poly" where
  "parse_input pyfloat polyfit eval_expr txt varname deg =
    (let txt = py_strip txt
     in case array_names varname of
          None \<Rightarrow> parse_rest pyfloat polyfit eval_expr txt varname deg
        | Some (xname, yname) \<Rightarrow>
           (case extract_data_from_text pyfloat txt xname of
              Inl e \<Rightarrow> Inl e
            | Inr arrx \<Rightarrow>
               (case extract_data_from_text pyfloat txt yname of
                  Inl e \<Rightarrow> Inl e
                | Inr arry \<Rightarrow>
                   (case (arrx, arry) of
                      (Some ax, Some ay) \<Rightarrow> np_polyfit polyfit ax ay deg
                    | _ \<Rightarrow> parse_rest pyfloat polyfit eval_expr txt varname deg))))"

text \<open>
  Reference routines for running the parser: \<open>pyfloat_ref\<close> is \<open>float\<close> on the strings of
  decimal digits and refuses every other string; \<open>polyfit_const\<close> and \<open>eval_const\<close> stand for
  the fit and the evaluator in runs that end before either is called.
\<close>

definition digit_val :: "char \<Rightarrow> nat" where
  "digit_val c = of_char c - 48"

definition pyfloat_ref :: pyfloat_t where
  "pyfloat_ref s =
     (if s \<noteq> [] \<and> list_all is_digit s
      then Some (real (foldl (\<lambda>a c. 10 * a + digit_val c) 0 s)) else None)"

definition polyfit_const :: polyfit_t where
  "polyfit_const x y deg = replicate (Suc deg) 0"

definition eval_const :: eval_t where
  "eval_const expr x = Inl EvalError"

section \<open>Notions used in the statements\<close>

text \<open>
  A bracketed solver for running the sampler: like \<open>brentq\<close> it refuses a bracket whose
  ends give the residual one sign; otherwise it reports the midpoint of the bracket.
\<close>

definition brentq_ref :: brentq_t where
  "brentq_ref f a b = (if f a * f b > 0 then None else Some ((a + b) / 2))"

text \<open>
  The integrated Seebeck coefficient and the contact-augmented integrated resistivity of
  a leg over an interval, and the characteristic resistances, as the source writes them
  at each use.
\<close>

definition Seng :: "poly \<Rightarrow> real \<Rightarrow> real \<Rightarrow> real" where
  "Seng p_st tc t = polyval (polyint p_st) t - polyval (polyint p_st) tc"

definition Reng1 :: "poly \<Rightarrow> real \<Rightarrow> real \<Rightarrow> real \<Rightarrow> real \<Rightarrow> real \<Rightarrow> real" where
  "Reng1 p_rt tc t L g_h g_c =
     polyval (polyint p_rt) t - polyval (polyint p_rt) tc + (t - tc) * (g_h + g_c) / L"

definition R_star_single :: "real \<Rightarrow> real \<Rightarrow> real \<Rightarrow> real" where
  "R_star_single al dt R1 = (if al \<noteq> 0 \<and> dt \<noteq> 0 then (1 / al) * (1 / dt) * R1 else 0)"

definition R_star_Couple :: "real \<Rightarrow> real \<Rightarrow> real \<Rightarrow> real \<Rightarrow> real \<Rightarrow> real" where
  "R_star_Couple aP aN dt R1P R1N =
     (if dt = 0 \<or> aP = 0 \<or> aN = 0 then 0 else (R1P / aP + R1N / aN) / dt)"

text \<open>
  The divisors of the intermediate quantities of the single-leg optimizer are not zero:
  \<open>ZT_eng\<close> divides by \<open>KengP\<close> and \<open>RengP1\<close>, \<open>a0\<close> by \<open>SengP\<close> and \<open>deltaT\<close>, \<open>a1\<close> and \<open>a2\<close> by
  \<open>RengP1\<close> and \<open>deltaT\<close>.
\<close>

definition single_defined :: "'a opt_locals_scheme \<Rightarrow> bool" where
  "single_defined q \<longleftrightarrow> KengP q \<noteq> 0 \<and> RengP1 q \<noteq> 0 \<and> SengP q \<noteq> 0 \<and> deltaT q \<noteq> 0"

text \<open>A sequence is non-decreasing.\<close>

definition non_decreasing :: "real list \<Rightarrow> bool" where
  "non_decreasing xs \<longleftrightarrow> sorted xs"

text \<open>
  The samples the loop of a generator retains, in order, before the curve is closed: the
  generator's own computation up to the end of its loop.
\<close>

definition single_leg_points ::
  "quad_t \<Rightarrow> brentq_t \<Rightarrow> single_results \<Rightarrow> point list" where
  "single_leg_points quad brentq p =
     sweep (sample_single quad brentq (s_poly (inp p)) (k_poly (inp p))
              (polyint (s_poly (inp p))) (polyint (r_poly (inp p)))
              (polyint (polyder (s_poly (inp p)) @ [0]))
              (alpha (opt p)) (Qin (inp p)) (Tc (inp p)) (Lmax (inp p))
              (gamma_c_h (inp p)) (gamma_c_c (inp p)))
       (linspace (Th_sc (opt p)) (Th_oc p) 50)"

definition Couple_points ::
  "quad_t \<Rightarrow> brentq_t \<Rightarrow> couple_results \<Rightarrow> point list" where
  "Couple_points quad brentq p =
     sweep (sample_Couple quad brentq (p_s_poly (inp p)) (p_k_poly (inp p))
              (n_s_poly (inp p)) (n_k_poly (inp p))
              (polyint (p_s_poly (inp p))) (polyint (p_r_poly (inp p)))
              (polyint (n_s_poly (inp p))) (polyint (n_r_poly (inp p)))
              (polyint (polyder (p_s_poly (inp p)) @ [0]))
              (polyint (polyder (n_s_poly (inp p)) @ [0]))
              (alphaP (opt p)) (beta_opt (opt p)) (Qin (inp p)) (Tc (inp p)) (Lmax (inp p))
              (rc_ph (inp p)) (rc_pc (inp p)) (rc_nh (inp p)) (rc_nc (inp p)))
       (linspace (Th_sc (opt p)) (Th_oc p) 50)"

definition swept_points :: "quad_t \<Rightarrow> brentq_t \<Rightarrow> last_results \<Rightarrow> point list" where
  "swept_points quad brentq res =
     (case res of Single p \<Rightarrow> single_leg_points quad brentq p
                | Couple p \<Rightarrow> Couple_points quad brentq p)"

text \<open>
  The stored results are those of a run that succeeded: the Seebeck curves have the two
  coefficients without which \<open>on_calc\<close> fails before it stores anything.
\<close>

definition stored_ok :: "last_results \<Rightarrow> bool" where
  "stored_ok res =
     (case res of Single p \<Rightarrow> 2 \<le> length (s_poly (inp p))
                | Couple p \<Rightarrow> 2 \<le> length (p_s_poly (inp p)) \<and> 2 \<le> length (n_s_poly (inp p)))"

text \<open>The values of \<open>last_results\<close> that the closing of the curve reads.\<close>

definition stored_Isc :: "last_results \<Rightarrow> real" where
  "stored_Isc res = (case res of Single p \<Rightarrow> Isc (opt p) | Couple p \<Rightarrow> Isc (opt p))"

definition stored_Voc :: "last_results \<Rightarrow> real" where
  "stored_Voc res = (case res of Single p \<Rightarrow> Voc p | Couple p \<Rightarrow> Voc p)"

definition stored_R_star_opt :: "last_results \<Rightarrow> real" where
  "stored_R_star_opt res =
     (case res of Single p \<Rightarrow> R_star_opt (opt p) | Couple p \<Rightarrow> R_star_opt (opt p))"

text \<open>A bracketed solver reports roots of its bracket only.\<close>

definition bracket_respecting :: "brentq_t \<Rightarrow> bool" where
  "bracket_respecting brentq \<longleftrightarrow>
     (\<forall>f a b r. a \<le> b \<and> brentq f a b = Some r \<longrightarrow> a \<le> r \<and> r \<le> b)"

section \<open>Example inputs\<close>

text \<open>
  A leg with the constant properties S = 2e-4 V/K, thermal conductivity 1.5 W/(m K) and
  resistivity 1.5e-6 Ohm m, between 300 K and 600 K under 1 W, without contact resistance
  (\<open>on_calc\<close> then sets \<open>Lmax\<close> to 1); a couple of two such legs with opposite Seebeck
  coefficients; and the same couple with the two legs entered in each other's place.
\<close>

definition single_input_ex :: single_inputs where
  "single_input_ex = \<lparr>Qin = 1, Tc = 300, Tmax = 600, Lmax = 1,
     s_poly = [0, 1/5000], k_poly = [3/2], r_poly = [3/2000000],
     gamma_c_h = 0, gamma_c_c = 0\<rparr>"

definition couple_input_ex :: couple_inputs where
  "couple_input_ex = \<lparr>Qin = 1, Tc = 300, Tmax = 600, Lmax = 1,
     p_s_poly = [0, 1/5000], p_k_poly = [3/2], p_r_poly = [3/2000000],
     n_s_poly = [0, - (1/5000)], n_k_poly = [3/2], n_r_poly = [3/2000000],
     rc_ph = 0, rc_pc = 0, rc_nh = 0, rc_nc = 0\<rparr>"

definition couple_input_swapped :: couple_inputs where
  "couple_input_swapped = \<lparr>Qin = 1, Tc = 300, Tmax = 600, Lmax = 1,
     p_s_poly = [0, - (1/5000)], p_k_poly = [3/2], p_r_poly = [3/2000000],
     n_s_poly = [0, 1/5000], n_k_poly = [3/2], n_r_poly = [3/2000000],
     rc_ph = 0, rc_pc = 0, rc_nh = 0, rc_nc = 0\<rparr>"

text \<open>
  Stored results with the geometry of the example leg and a sweep from 390 K to 439 K in
  steps of one kelvin; with this geometry the residual of the sampler changes sign over
  the bracket at 439 K only.
\<close>

definition single_results_narrow :: single_results where
  "single_results_narrow =
     \<lparr>inp = single_input_ex,
      opt = \<lparr>eff = 2/7, m_opt = 3, alpha = 1/1575, Vopt = 9/200, Th_sc = 390,
             Isc = 180640/13563, R_star_opt = 189/80000, R_L_opt = 567/80000\<rparr>,
      Th_oc = 439, Voc = 21/100, Th_opt = 482850/701, I_opt = 363400/44163\<rparr>"

section \<open>Evaluation and structure lemmas\<close>

lemma polyval_Nil [simp]: "polyval [] x = 0"
  by (simp add: polyval_def)

lemma polyval_one [simp]: "polyval [c] x = c"
  by (simp add: polyval_def)

lemma polyval_two [simp]: "polyval [c1, c0] x = c1 * x + c0"
  by (simp add: polyval_def)

lemma polyval_three [simp]: "polyval [c2, c1, c0] x = (c2 * x + c1) * x + c0"
  by (simp add: polyval_def)

lemmas eval_defs = Let_def convolve_1_0_def safe_polyint_k_def safe_polyval_k_def quad_ref_def
  k_min_default_def power2_eq_square

lemma polyder_eq_Nil: "polyder p = [] \<longleftrightarrow> length p \<le> 1"
  by (induction p rule: polyder.induct) simp_all

lemma convolve_polyder: "2 \<le> length p \<Longrightarrow> convolve_1_0 (polyder p) = Inr (polyder p @ [0])"
  using polyder_eq_Nil [of p] by (simp add: convolve_1_0_def)

lemma single_locals_ok:
  assumes "2 \<le> length p_st" "tmax \<noteq> 0" "L \<noteq> 0"
  shows "\<exists>q. single_locals quad p_st p_kt p_rt tc tmax L gh gc = Inr q
     \<and> deltaT q = tmax - tc \<and> Sum_st q = polyint p_st \<and> Sum_rt q = polyint p_rt"
  using assms by (simp add: single_locals_def convolve_polyder Let_def)

lemma single_locals_effc:
  "single_locals quad p_st p_kt p_rt tc tmax L gh gc = Inr q \<Longrightarrow> effc q = (tmax - tc) / tmax"
  by (auto simp: single_locals_def Let_def split: sum.splits if_splits)

lemma run_calc_single_fields:
  assumes "single_locals quad p_st p_kt p_rt tc tmax L gh gc = Inr q"
  shows "\<exists>r. run_calc_single quad fsolve p_st p_kt p_rt qin tc tmax L gh gc = Inr r
     \<and> m_opt r = sqrt (1 + ZT_eng q * a1 q / effc q)
     \<and> eff r = effc q * (sqrt (1 + ZT_eng q * a1 q / effc q) - 1)
                / (a0 q * sqrt (1 + ZT_eng q * a1 q / effc q) + a2 q)
     \<and> R_star_opt r = R_star_single (alpha r) (deltaT q) (RengP1 q)
     \<and> R_L_opt r = m_opt r * R_star_opt r
     \<and> Th_sc r = fsolve (sc_eq_single quad p_st p_kt q (alpha r) qin tc L gh gc) (tc + 20)
     \<and> Isc r = (let R_star_sc = R_star_single (alpha r) (Th_sc r - tc)
                                   (polyval (Sum_rt q) (Th_sc r) - polyval (Sum_rt q) tc
                                     + (Th_sc r - tc) * (gh + gc) / L)
                in if R_star_sc \<noteq> 0
                   then \<bar>(polyval (Sum_st q) (Th_sc r) - polyval (Sum_st q) tc) / R_star_sc\<bar>
                   else 0)"
  unfolding run_calc_single_def assms sum.case Let_def R_star_single_def
  by (rule exI, intro conjI, rule refl) (simp_all only: single_opt.select_convs)

lemma sl0_val:
  "single_locals quad_ref [0, 1/5000] [3/2] [3/2000000] 300 600 1 0 0 =
     Inr \<lparr>deltaT = 300, effc = 1/2, SengP = 3/50, KengP = 450,
          RengP = 9/20000, RengP1 = 9/20000, ZT_eng = 16/3, a0 = 1, a1 = 3/4, a2 = 1/2,
          Sum_st = [0, 1/5000, 0], Sum_rt = [3/2000000, 0], Sum_taut = [0, 0, 0],
          int_taut = 0, int_rt = 27/400\<rparr>"
  unfolding single_locals_def by (simp add: eval_defs)

lemma quad_ref_positive: "positive_quadrature quad_ref"
  unfolding positive_quadrature_def quad_ref_def
  by (auto intro!: mult_left_mono)

section \<open>The closed forms of the optimizers\<close>

text \<open>
  Claim C1. On every single-leg input on which the intermediate quantities of
  \<open>run_calc_single\<close> are defined (the locals are computed without an exception and no
  divisor of \<open>ZT_eng\<close>, \<open>a0\<close>, \<open>a1\<close>, \<open>a2\<close> is zero), the function returns, the Carnot-like
  reference is \<open>effc = (Tmax - Tc) / Tmax\<close>, the returned load ratio is
  \<open>sqrt (1 + ZT_eng * a1 / effc)\<close> and the returned efficiency is
  \<open>effc * (sqrt (1 + ZT_eng * a1 / effc) - 1) / (a0 * sqrt (1 + ZT_eng * a1 / effc) + a2)\<close>.
\<close>

theorem run_calc_single_closed_form:
  assumes "single_locals quad p_st p_kt p_rt tc tmax L gh gc = Inr q" and "single_defined q"
  shows "\<exists>r. run_calc_single quad fsolve p_st p_kt p_rt qin tc tmax L gh gc = Inr r
     \<and> effc q = (tmax - tc) / tmax
     \<and> m_opt r = sqrt (1 + ZT_eng q * a1 q / effc q)
     \<and> eff r = effc q * (sqrt (1 + ZT_eng q * a1 q / effc q) - 1)
                / (a0 q * sqrt (1 + ZT_eng q * a1 q / effc q) + a2 q)"
  using run_calc_single_fields [OF assms(1), of fsolve qin] single_locals_effc [OF assms(1)]
  by blast

theorem run_calc_single_closed_form_witness:
  "single_locals quad_ref [0, 1/5000] [3/2] [3/2000000] 300 600 1 0 0 =
     Inr \<lparr>deltaT = 300, effc = 1/2, SengP = 3/50, KengP = 450,
          RengP = 9/20000, RengP1 = 9/20000, ZT_eng = 16/3, a0 = 1, a1 = 3/4, a2 = 1/2,
          Sum_st = [0, 1/5000, 0], Sum_rt = [3/2000000, 0], Sum_taut = [0, 0, 0],
          int_taut = 0, int_rt = 27/400\<rparr>
   \<and> single_defined \<lparr>deltaT = 300, effc = 1/2, SengP = 3/50, KengP = 450,
          RengP = 9/20000, RengP1 = 9/20000, ZT_eng = 16/3, a0 = 1, a1 = 3/4, a2 = 1/2,
          Sum_st = [0, 1/5000, 0], Sum_rt = [3/2000000, 0], Sum_taut = [0, 0, 0],
          int_taut = 0, int_rt = 27/400\<rparr>
   \<and> (\<exists>r. run_calc_single quad_ref fsolve_ref [0, 1/5000] [3/2] [3/2000000] 1 300 600 1 0 0 = Inr r
          \<and> m_opt r = 3 \<and> eff r = 2/7)"
proof -
  let ?q = "\<lparr>deltaT = 300, effc = 1/2, SengP = 3/50, KengP = 450,
          RengP = 9/20000, RengP1 = 9/20000, ZT_eng = 16/3, a0 = 1, a1 = 3/4, a2 = 1/2,
          Sum_st = [0, 1/5000, 0], Sum_rt = [3/2000000, 0], Sum_taut = [0, 0, 0],
          int_taut = 0, int_rt = 27/400\<rparr> :: single_locals"
  have d: "single_defined ?q" by (simp add: single_defined_def)
  from run_calc_single_closed_form [OF sl0_val d, of fsolve_ref 1]
  obtain r where "run_calc_single quad_ref fsolve_ref [0, 1/5000] [3/2] [3/2000000] 1 300 600 1 0 0 = Inr r"
    and "m_opt r = sqrt (1 + ZT_eng ?q * a1 ?q / effc ?q)"
    and "eff r = effc ?q * (sqrt (1 + ZT_eng ?q * a1 ?q / effc ?q) - 1)
                / (a0 ?q * sqrt (1 + ZT_eng ?q * a1 ?q / effc ?q) + a2 ?q)"
    by blast
  then have "run_calc_single quad_ref fsolve_ref [0, 1/5000] [3/2] [3/2000000] 1 300 600 1 0 0 = Inr r
      \<and> m_opt r = 3 \<and> eff r = 2/7"
    by simp
  with sl0_val d show ?thesis by blast
qed

section \<open>The floored conductivity integral\<close>

text \<open>
  Claim C5. For every property curve and bounds \<open>T1 \<le> T2\<close>, the floored conductivity
  integral is at least \<open>k_min * (T2 - T1)\<close>, and with the default floor it is not negative,
  whatever the sign of the polynomial on the interval; the quadrature is any monotone
  rule that is exact on constants.
\<close>

theorem safe_polyint_k_floor:
  assumes "positive_quadrature quad" and "T1 \<le> T2"
  shows "k_min * (T2 - T1) \<le> safe_polyint_k quad p T1 T2 k_min
       \<and> 0 \<le> safe_polyint_k quad p T1 T2 k_min_default"
proof -
  have mono: "\<And>f g. (\<forall>x. T1 \<le> x \<and> x \<le> T2 \<longrightarrow> f x \<le> g x) \<Longrightarrow> quad f T1 T2 \<le> quad g T1 T2"
    using assms unfolding positive_quadrature_def by blast
  have const: "\<And>c. quad (\<lambda>x. c) T1 T2 = c * (T2 - T1)"
    using assms(1) unfolding positive_quadrature_def by blast
  have low: "c * (T2 - T1) \<le> safe_polyint_k quad p T1 T2 c" for c
  proof -
    have "quad (\<lambda>x. c) T1 T2 \<le> quad (\<lambda>T. safe_polyval_k p T c) T1 T2"
      by (rule mono) (simp add: safe_polyval_k_def)
    then show ?thesis by (simp add: const safe_polyint_k_def)
  qed
  have "0 \<le> k_min_default * (T2 - T1)"
    using assms(2) by (simp add: k_min_default_def)
  with low [of k_min_default] low [of k_min] show ?thesis by linarith
qed

theorem safe_polyint_k_floor_witness:
  "positive_quadrature quad_ref \<and> (300::real) \<le> 900 \<and> polyval [-1, 500] 900 < 0
   \<and> k_min_default * (900 - 300) \<le> safe_polyint_k quad_ref [-1, 500] 300 900 k_min_default
   \<and> 0 \<le> safe_polyint_k quad_ref [-1, 500] 300 900 k_min_default"
  using safe_polyint_k_floor [OF quad_ref_positive, of 300 900 k_min_default "[-1, 500]"]
    quad_ref_positive
  by simp

lemma couple_locals_ok:
  assumes "2 \<le> length p_st" "2 \<le> length n_st" "tmax \<noteq> 0" "L \<noteq> 0"
  shows "\<exists>q. couple_locals quad tc tmax L nh nc ph pc p_st p_kt p_rt n_st n_kt n_rt = Inr q"
  using assms by (simp add: couple_locals_def convolve_polyder Let_def)

lemma couple_locals_fields:
  assumes "couple_locals quad tc tmax L nh nc ph pc p_st p_kt p_rt n_st n_kt n_rt = Inr q"
  shows "deltaT q = tmax - tc"
    and "Sum_pst q = polyint p_st" and "Sum_nst q = polyint n_st"
    and "Sum_prt q = polyint p_rt" and "Sum_nrt q = polyint n_rt"
    and "RengP1 q = Reng1 p_rt tc tmax L ph pc" and "RengN1 q = Reng1 n_rt tc tmax L nh nc"
    and "KengP q = safe_polyint_k quad p_kt tc tmax k_min_default"
    and "KengN q = safe_polyint_k quad n_kt tc tmax k_min_default"
    and "beta q = (if RengP1 q * KengN q \<noteq> 0
                   then sqrt (RengN1 q * KengP q / (RengP1 q * KengN q)) else 1)"
  using assms
  by (auto simp: couple_locals_def Let_def Reng1_def split: sum.splits if_splits)

lemma single_locals_fields:
  assumes "single_locals quad p_st p_kt p_rt tc tmax L gh gc = Inr q"
  shows "deltaT q = tmax - tc" and "Sum_st q = polyint p_st" and "Sum_rt q = polyint p_rt"
    and "RengP1 q = Reng1 p_rt tc tmax L gh gc"
  using assms
  by (auto simp: single_locals_def Let_def Reng1_def split: sum.splits if_splits)

lemma run_calc_Couple_fields:
  assumes "couple_locals quad tc tmax L nh nc ph pc p_st p_kt p_rt n_st n_kt n_rt = Inr q"
  shows "\<exists>r. run_calc_Couple quad fsolve qin tc tmax L nh nc ph pc p_st p_kt p_rt n_st n_kt n_rt = Inr r
     \<and> beta_opt r = beta q
     \<and> alphaN r = beta q * alphaP r
     \<and> R_star_opt r = R_star_Couple (alphaP r) (alphaN r) (deltaT q) (RengP1 q) (RengN1 q)
     \<and> R_L_opt r = m_opt r * R_star_opt r
     \<and> Th_sc r = fsolve (sc_eq_Couple quad p_st p_kt n_st n_kt q (alphaP r) qin tc L nh nc ph pc)
                         (tc + 20)
     \<and> Isc r = (let R_star_sc = R_star_Couple (alphaP r) (alphaN r) (Th_sc r - tc)
                     (polyval (Sum_prt q) (Th_sc r) - polyval (Sum_prt q) tc
                        + (Th_sc r - tc) * (ph + pc) / L)
                     (polyval (Sum_nrt q) (Th_sc r) - polyval (Sum_nrt q) tc
                        + (Th_sc r - tc) * (nh + nc) / L)
                in if R_star_sc \<noteq> 0
                   then ((polyval (Sum_pst q) (Th_sc r) - polyval (Sum_pst q) tc)
                         - (polyval (Sum_nst q) (Th_sc r) - polyval (Sum_nst q) tc)) / R_star_sc
                   else 0)"
  unfolding run_calc_Couple_def assms sum.case Let_def R_star_Couple_def
  by (rule exI, intro conjI, rule refl)
     (simp_all only: single_opt.select_convs couple_opt.select_convs)

text \<open>
  Claim C8. On every couple input whose locals are computed and for which
  \<open>RengP1 * KengN\<close> is not zero, \<open>run_calc_Couple\<close> returns, and the area ratio it returns is
  \<open>sqrt (RengN1 * KengP / (RengP1 * KengN))\<close>, where \<open>RengP1\<close> and \<open>RengN1\<close> are the
  contact-augmented integrated resistivities and \<open>KengP\<close>, \<open>KengN\<close> the floored integrated
  conductivities of the two legs over \<open>[Tc, Tmax]\<close>.
\<close>

theorem run_calc_Couple_area_ratio:
  assumes "couple_locals quad tc tmax L nh nc ph pc p_st p_kt p_rt n_st n_kt n_rt = Inr q"
    and "RengP1 q * KengN q \<noteq> 0"
  shows "\<exists>r. run_calc_Couple quad fsolve qin tc tmax L nh nc ph pc p_st p_kt p_rt n_st n_kt n_rt = Inr r
     \<and> beta_opt r = sqrt (RengN1 q * KengP q / (RengP1 q * KengN q))
     \<and> RengP1 q = Reng1 p_rt tc tmax L ph pc \<and> RengN1 q = Reng1 n_rt tc tmax L nh nc
     \<and> KengP q = safe_polyint_k quad p_kt tc tmax k_min_default
     \<and> KengN q = safe_polyint_k quad n_kt tc tmax k_min_default"
proof -
  from run_calc_Couple_fields [OF assms(1), of fsolve qin]
  obtain r where r: "run_calc_Couple quad fsolve qin tc tmax L nh nc ph pc p_st p_kt p_rt n_st n_kt n_rt = Inr r"
    and b: "beta_opt r = beta q"
    by blast
  from couple_locals_fields(10) [OF assms(1)] assms(2)
  have "beta q = sqrt (RengN1 q * KengP q / (RengP1 q * KengN q))" by simp
  with r b couple_locals_fields(6-9) [OF assms(1)] show ?thesis by auto
qed

lemma solve_single_fields:
  assumes "2 \<le> length sp"
  shows "\<exists>t c. solve_Th_I_at_m_single quad fsolve mm tc qin L gh gc sp kp rp a = Inr (t, c)
     \<and> c = (let R_star = R_star_single a (t - tc) (Reng1 rp tc t L gh gc)
            in if R_star \<noteq> 0 then \<bar>Seng sp tc t / (R_star * (1 + mm))\<bar> else 0)"
  unfolding solve_Th_I_at_m_single_def convolve_polyder [OF assms] sum.case Let_def
    R_star_single_def Reng1_def Seng_def
  by (intro exI conjI, rule refl) (rule refl)

lemma solve_Couple_fields:
  assumes "2 \<le> length ps" "2 \<le> length ns"
  shows "\<exists>t c. solve_Th_I_at_m_Couple quad fsolve mm be tc qin L nh nc ph pc ps pk pr ns nk nr aP
                 = Inr (t, c)
     \<and> c = (let R_star = R_star_Couple aP (aP * be) (t - tc)
                            (Reng1 pr tc t L ph pc) (Reng1 nr tc t L nh nc)
            in if R_star \<noteq> 0 then (Seng ps tc t - Seng ns tc t) / (R_star * (1 + mm)) else 0)"
  unfolding solve_Th_I_at_m_Couple_def convolve_polyder [OF assms(1)] convolve_polyder [OF assms(2)]
    sum.case Let_def R_star_Couple_def Reng1_def Seng_def
  by (intro exI conjI, rule refl) simp

lemma run_single_ex:
  "run_calc_single quad_ref fsolve_ref [0, 1/5000] [3/2] [3/2000000] 1 300 600 1 0 0 =
     Inr \<lparr>eff = 2/7, m_opt = 3, alpha = 1/1575, Vopt = 9/200, Th_sc = 689190/1507,
          Isc = 180640/13563, R_star_opt = 189/80000, R_L_opt = 567/80000\<rparr>"
  unfolding run_calc_single_def sl0_val
  by (simp add: eval_defs sc_eq_single_def fsolve_ref_def)

lemma solve_single_ex:
  "solve_Th_I_at_m_single quad_ref fsolve_ref 3 300 1 1 0 0 [0, 1/5000] [3/2] [3/2000000] (1/1575)
     = Inr (482850/701, 363400/44163)"
  unfolding solve_Th_I_at_m_single_def
  by (simp add: eval_defs heat_balance_single_def fsolve_ref_def)

lemma on_calc_single_ex:
  "on_calc_single quad_ref fsolve_ref single_input_ex =
     Inr \<lparr>inp = single_input_ex,
          opt = \<lparr>eff = 2/7, m_opt = 3, alpha = 1/1575, Vopt = 9/200, Th_sc = 689190/1507,
                 Isc = 180640/13563, R_star_opt = 189/80000, R_L_opt = 567/80000\<rparr>,
          Th_oc = 1350, Voc = 21/100, Th_opt = 482850/701, I_opt = 363400/44163\<rparr>"
  unfolding on_calc_single_def
  by (simp add: single_input_ex_def run_single_ex solve_single_ex eval_defs eq_oc_single_def
        fsolve_ref_def)

lemma couple_locals_ex:
  "couple_locals quad_ref 300 600 1 0 0 0 0 [0, 1/5000] [3/2] [3/2000000]
       [0, - (1/5000)] [3/2] [3/2000000] =
     Inr \<lparr>deltaT = 300, effc = 1/2, SengP = 3/50, KengP = 450,
          RengP = 9/20000, RengP1 = 9/20000, ZT_eng = 16/3, a0 = 1, a1 = 3/4, a2 = 1/2,
          Sum_pst = [0, 1/5000, 0], Sum_prt = [3/2000000, 0], Sum_ptaut = [0, 0, 0],
          Sum_nst = [0, - (1/5000), 0], Sum_nrt = [3/2000000, 0], Sum_ntaut = [0, 0, 0],
          SengN = - 3/50, KengN = 450, RengN = 9/20000, RengN1 = 9/20000, beta = 1,
          int_ptaut = 0, int_ntaut = 0, int_prt = 27/400, int_nrt = 27/400\<rparr>"
  unfolding couple_locals_def
  by (simp add: eval_defs real_sqrt_divide)

lemma couple_locals_swapped:
  "couple_locals quad_ref 300 600 1 0 0 0 0 [0, - (1/5000)] [3/2] [3/2000000]
       [0, 1/5000] [3/2] [3/2000000] =
     Inr \<lparr>deltaT = 300, effc = 1/2, SengP = - 3/50, KengP = 450,
          RengP = 9/20000, RengP1 = 9/20000, ZT_eng = 16/3, a0 = 1, a1 = 3/4, a2 = 1/2,
          Sum_pst = [0, - (1/5000), 0], Sum_prt = [3/2000000, 0], Sum_ptaut = [0, 0, 0],
          Sum_nst = [0, 1/5000, 0], Sum_nrt = [3/2000000, 0], Sum_ntaut = [0, 0, 0],
          SengN = 3/50, KengN = 450, RengN = 9/20000, RengN1 = 9/20000, beta = 1,
          int_ptaut = 0, int_ntaut = 0, int_prt = 27/400, int_nrt = 27/400\<rparr>"
  unfolding couple_locals_def
  by (simp add: eval_defs real_sqrt_divide)

lemma run_Couple_ex:
  "run_calc_Couple quad_ref fsolve_ref 1 300 600 1 0 0 0 0 [0, 1/5000] [3/2] [3/2000000]
       [0, - (1/5000)] [3/2] [3/2000000] =
     Inr \<lparr>eff = 2/7, m_opt = 3, alpha = 1/1575, Vopt = 9/100, Th_sc = 2704920/5551,
          Isc = 2772320/349713, R_star_opt = 189/20000, R_L_opt = 567/20000,
          beta_opt = 1, alphaP = 1/3150, alphaN = 1/3150, Pmax = 2/7\<rparr>"
  unfolding run_calc_Couple_def couple_locals_ex
  by (simp add: eval_defs sc_eq_Couple_def fsolve_ref_def)

lemma run_Couple_swapped:
  "run_calc_Couple quad_ref fsolve_ref 1 300 600 1 0 0 0 0 [0, - (1/5000)] [3/2] [3/2000000]
       [0, 1/5000] [3/2] [3/2000000] =
     Inr \<lparr>eff = 2/7, m_opt = 3, alpha = 1/1575, Vopt = - 9/100, Th_sc = 2704920/5551,
          Isc = - 2772320/349713, R_star_opt = 189/20000, R_L_opt = 567/20000,
          beta_opt = 1, alphaP = 1/3150, alphaN = 1/3150, Pmax = 2/7\<rparr>"
  unfolding run_calc_Couple_def couple_locals_swapped
  by (simp add: eval_defs sc_eq_Couple_def fsolve_ref_def)

lemma solve_Couple_ex:
  "solve_Th_I_at_m_Couple quad_ref fsolve_ref 3 1 300 1 1 0 0 0 0 [0, 1/5000] [3/2] [3/2000000]
       [0, - (1/5000)] [3/2] [3/2000000] (1/3150) = Inr (482850/701, 181700/44163)"
  unfolding solve_Th_I_at_m_Couple_def
  by (simp add: eval_defs heat_balance_Couple_def fsolve_ref_def)

lemma solve_Couple_swapped:
  "solve_Th_I_at_m_Couple quad_ref fsolve_ref 3 1 300 1 1 0 0 0 0 [0, - (1/5000)] [3/2] [3/2000000]
       [0, 1/5000] [3/2] [3/2000000] (1/3150) = Inr (482850/701, - 181700/44163)"
  unfolding solve_Th_I_at_m_Couple_def
  by (simp add: eval_defs heat_balance_Couple_def fsolve_ref_def)

lemma on_calc_Couple_ex:
  "on_calc_Couple quad_ref fsolve_ref couple_input_ex =
     Inr \<lparr>inp = couple_input_ex,
          opt = \<lparr>eff = 2/7, m_opt = 3, alpha = 1/1575, Vopt = 9/100, Th_sc = 2704920/5551,
                 Isc = 2772320/349713, R_star_opt = 189/20000, R_L_opt = 567/20000,
                 beta_opt = 1, alphaP = 1/3150, alphaN = 1/3150, Pmax = 2/7\<rparr>,
          Th_oc = 1350, Voc = 21/50, Th_opt = 482850/701, I_opt = 181700/44163\<rparr>"
  unfolding on_calc_Couple_def
  by (simp add: couple_input_ex_def run_Couple_ex solve_Couple_ex eval_defs eq_oc_Couple_def
        fsolve_ref_def)

lemma on_calc_Couple_swapped:
  "on_calc_Couple quad_ref fsolve_ref couple_input_swapped =
     Inr \<lparr>inp = couple_input_swapped,
          opt = \<lparr>eff = 2/7, m_opt = 3, alpha = 1/1575, Vopt = - 9/100, Th_sc = 2704920/5551,
                 Isc = - 2772320/349713, R_star_opt = 189/20000, R_L_opt = 567/20000,
                 beta_opt = 1, alphaP = 1/3150, alphaN = 1/3150, Pmax = 2/7\<rparr>,
          Th_oc = 1350, Voc = - 21/50, Th_opt = 482850/701, I_opt = - 181700/44163\<rparr>"
  unfolding on_calc_Couple_def
  by (simp add: couple_input_swapped_def run_Couple_swapped solve_Couple_swapped eval_defs
        eq_oc_Couple_def fsolve_ref_def)

lemma run_calc_single_ok:
  assumes "2 \<le> length p_st" "tmax \<noteq> 0" "L \<noteq> 0"
  shows "\<exists>r. run_calc_single quad fsolve p_st p_kt p_rt qin tc tmax L gh gc = Inr r"
proof -
  from single_locals_ok [OF assms]
  obtain q where q: "single_locals quad p_st p_kt p_rt tc tmax L gh gc = Inr q" by blast
  from run_calc_single_fields [OF q, of fsolve qin] show ?thesis by blast
qed

lemma run_calc_Couple_ok:
  assumes "2 \<le> length p_st" "2 \<le> length n_st" "tmax \<noteq> 0" "L \<noteq> 0"
  shows "\<exists>r. run_calc_Couple quad fsolve qin tc tmax L nh nc ph pc p_st p_kt p_rt n_st n_kt n_rt = Inr r
     \<and> Isc r = (let R_star_sc = R_star_Couple (alphaP r) (alphaN r) (Th_sc r - tc)
                     (Reng1 p_rt tc (Th_sc r) L ph pc) (Reng1 n_rt tc (Th_sc r) L nh nc)
                in if R_star_sc \<noteq> 0
                   then (Seng p_st tc (Th_sc r) - Seng n_st tc (Th_sc r)) / R_star_sc
                   else 0)"
proof -
  from couple_locals_ok [OF assms]
  obtain q where q: "couple_locals quad tc tmax L nh nc ph pc p_st p_kt p_rt n_st n_kt n_rt = Inr q"
    by blast
  note f = couple_locals_fields [OF q]
  from run_calc_Couple_fields [OF q, of fsolve qin]
  obtain r where r: "run_calc_Couple quad fsolve qin tc tmax L nh nc ph pc p_st p_kt p_rt n_st n_kt n_rt = Inr r"
    and isc: "Isc r = (let R_star_sc = R_star_Couple (alphaP r) (alphaN r) (Th_sc r - tc)
                     (polyval (Sum_prt q) (Th_sc r) - polyval (Sum_prt q) tc
                        + (Th_sc r - tc) * (ph + pc) / L)
                     (polyval (Sum_nrt q) (Th_sc r) - polyval (Sum_nrt q) tc
                        + (Th_sc r - tc) * (nh + nc) / L)
                in if R_star_sc \<noteq> 0
                   then ((polyval (Sum_pst q) (Th_sc r) - polyval (Sum_pst q) tc)
                         - (polyval (Sum_nst q) (Th_sc r) - polyval (Sum_nst q) tc)) / R_star_sc
                   else 0)"
    by blast
  have 2: "Isc r = (let R_star_sc = R_star_Couple (alphaP r) (alphaN r) (Th_sc r - tc)
                     (Reng1 p_rt tc (Th_sc r) L ph pc) (Reng1 n_rt tc (Th_sc r) L nh nc)
                in if R_star_sc \<noteq> 0
                   then (Seng p_st tc (Th_sc r) - Seng n_st tc (Th_sc r)) / R_star_sc
                   else 0)"
    using isc unfolding f(2-5) Reng1_def Seng_def by simp
  from r 2 show ?thesis by blast
qed

theorem run_calc_Couple_area_ratio_witness:
  "(\<exists>q. couple_locals quad_ref 300 600 1 0 0 0 0 [0, 1/5000] [3/2] [3/2000000]
            [0, - (1/5000)] [3/2] [3/2000000] = Inr q
        \<and> RengP1 q * KengN q \<noteq> 0 \<and> RengP1 q = 9/20000 \<and> RengN1 q = 9/20000
        \<and> KengP q = 450 \<and> KengN q = 450)
   \<and> (\<exists>r. run_calc_Couple quad_ref fsolve_ref 1 300 600 1 0 0 0 0 [0, 1/5000] [3/2] [3/2000000]
            [0, - (1/5000)] [3/2] [3/2000000] = Inr r
        \<and> beta_opt r = 1)"
proof -
  let ?q = "\<lparr>deltaT = 300, effc = 1/2, SengP = 3/50, KengP = 450,
          RengP = 9/20000, RengP1 = 9/20000, ZT_eng = 16/3, a0 = 1, a1 = 3/4, a2 = 1/2,
          Sum_pst = [0, 1/5000, 0], Sum_prt = [3/2000000, 0], Sum_ptaut = [0, 0, 0],
          Sum_nst = [0, - (1/5000), 0], Sum_nrt = [3/2000000, 0], Sum_ntaut = [0, 0, 0],
          SengN = - (3/50), KengN = 450, RengN = 9/20000, RengN1 = 9/20000, beta = 1,
          int_ptaut = 0, int_ntaut = 0, int_prt = 27/400, int_nrt = 27/400\<rparr> :: couple_locals"
  have q: "couple_locals quad_ref 300 600 1 0 0 0 0 [0, 1/5000] [3/2] [3/2000000]
            [0, - (1/5000)] [3/2] [3/2000000] = Inr ?q"
    using couple_locals_ex by simp
  have n: "RengP1 ?q * KengN ?q \<noteq> 0" by simp
  from run_calc_Couple_area_ratio [OF q n, of fsolve_ref 1]
  obtain r where "run_calc_Couple quad_ref fsolve_ref 1 300 600 1 0 0 0 0 [0, 1/5000] [3/2]
            [3/2000000] [0, - (1/5000)] [3/2] [3/2000000] = Inr r"
    and "beta_opt r = sqrt (RengN1 ?q * KengP ?q / (RengP1 ?q * KengN ?q))"
    by blast
  then have "run_calc_Couple quad_ref fsolve_ref 1 300 600 1 0 0 0 0 [0, 1/5000] [3/2]
            [3/2000000] [0, - (1/5000)] [3/2] [3/2000000] = Inr r \<and> beta_opt r = 1"
    by simp
  moreover have "RengP1 ?q = 9/20000 \<and> RengN1 ?q = 9/20000 \<and> KengP ?q = 450 \<and> KengN ?q = 450"
    by simp
  ultimately show ?thesis using q n by blast
qed

lemma on_calc_single_fields:
  assumes "2 \<le> length (s_poly x)" "Tmax x \<noteq> 0" "Lmax x \<noteq> 0"
  shows "\<exists>p. on_calc_single quad fsolve x = Inr p
     \<and> Th_oc p = fsolve (eq_oc_single quad (k_poly x) (alpha (opt p)) (Qin x) (Tc x)) (Tmax x)
     \<and> Voc p = \<bar>Seng (s_poly x) (Tc x) (Th_oc p)\<bar>"
proof -
  from run_calc_single_ok [OF assms, of quad fsolve "k_poly x" "r_poly x" "Qin x" "Tc x"
      "gamma_c_h x" "gamma_c_c x"]
  obtain r where r: "run_calc_single quad fsolve (s_poly x) (k_poly x) (r_poly x) (Qin x) (Tc x)
      (Tmax x) (Lmax x) (gamma_c_h x) (gamma_c_c x) = Inr r"
    by blast
  from solve_single_fields [OF assms(1), of quad fsolve "m_opt r" "Tc x" "Qin x" "Lmax x"
      "gamma_c_h x" "gamma_c_c x" "k_poly x" "r_poly x" "alpha r"]
  obtain t c where s: "solve_Th_I_at_m_single quad fsolve (m_opt r) (Tc x) (Qin x) (Lmax x)
      (gamma_c_h x) (gamma_c_c x) (s_poly x) (k_poly x) (r_poly x) (alpha r) = Inr (t, c)"
    by blast
  show ?thesis
    unfolding on_calc_single_def r s sum.case Let_def prod.case Seng_def
    by simp
qed

lemma on_calc_Couple_fields:
  assumes "2 \<le> length (p_s_poly y)" "2 \<le> length (n_s_poly y)" "Tmax y \<noteq> 0" "Lmax y \<noteq> 0"
  shows "\<exists>c. on_calc_Couple quad fsolve y = Inr c
     \<and> Th_oc c = fsolve (eq_oc_Couple quad (p_k_poly y) (n_k_poly y) (alphaP (opt c))
                          (alphaN (opt c)) (Qin y) (Tc y)) (Tmax y)
     \<and> Voc c = Seng (p_s_poly y) (Tc y) (Th_oc c) - Seng (n_s_poly y) (Tc y) (Th_oc c)
     \<and> Isc (opt c) =
         (let R_star_sc = R_star_Couple (alphaP (opt c)) (alphaN (opt c)) (Th_sc (opt c) - Tc y)
                     (Reng1 (p_r_poly y) (Tc y) (Th_sc (opt c)) (Lmax y) (rc_ph y) (rc_pc y))
                     (Reng1 (n_r_poly y) (Tc y) (Th_sc (opt c)) (Lmax y) (rc_nh y) (rc_nc y))
          in if R_star_sc \<noteq> 0
             then (Seng (p_s_poly y) (Tc y) (Th_sc (opt c))
                   - Seng (n_s_poly y) (Tc y) (Th_sc (opt c))) / R_star_sc
             else 0)"
proof -
  from run_calc_Couple_ok [OF assms, of quad fsolve "Qin y" "Tc y" "rc_nh y" "rc_nc y" "rc_ph y"
      "rc_pc y" "p_k_poly y" "p_r_poly y" "n_k_poly y" "n_r_poly y"]
  obtain r where r: "run_calc_Couple quad fsolve (Qin y) (Tc y) (Tmax y) (Lmax y)
            (rc_nh y) (rc_nc y) (rc_ph y) (rc_pc y)
            (p_s_poly y) (p_k_poly y) (p_r_poly y) (n_s_poly y) (n_k_poly y) (n_r_poly y) = Inr r"
    and i: "Isc r = (let R_star_sc = R_star_Couple (alphaP r) (alphaN r) (Th_sc r - Tc y)
                     (Reng1 (p_r_poly y) (Tc y) (Th_sc r) (Lmax y) (rc_ph y) (rc_pc y))
                     (Reng1 (n_r_poly y) (Tc y) (Th_sc r) (Lmax y) (rc_nh y) (rc_nc y))
                in if R_star_sc \<noteq> 0
                   then (Seng (p_s_poly y) (Tc y) (Th_sc r) - Seng (n_s_poly y) (Tc y) (Th_sc r))
                        / R_star_sc
                   else 0)"
    by blast
  from solve_Couple_fields [OF assms(1,2), of quad fsolve "m_opt r" "beta_opt r" "Tc y" "Qin y"
      "Lmax y" "rc_nh y" "rc_nc y" "rc_ph y" "rc_pc y" "p_k_poly y" "p_r_poly y" "n_k_poly y"
      "n_r_poly y" "alphaP r"]
  obtain t c where s: "solve_Th_I_at_m_Couple quad fsolve (m_opt r) (beta_opt r) (Tc y) (Qin y)
      (Lmax y) (rc_nh y) (rc_nc y) (rc_ph y) (rc_pc y) (p_s_poly y) (p_k_poly y) (p_r_poly y)
      (n_s_poly y) (n_k_poly y) (n_r_poly y) (alphaP r) = Inr (t, c)"
    by blast
  show ?thesis
    unfolding on_calc_Couple_def r s sum.case Let_def prod.case 
    using i by (simp add: Seng_def Let_def)
qed

text \<open>
  Claim C2 fails in couple mode. The couple path keeps the sign of the difference of the
  integrated Seebeck coefficients of the two legs: \<open>on_calc\<close> stores it as the open-circuit
  voltage and \<open>run_calc_Couple\<close> divides it by the short-circuit resistance, where the
  single-leg path takes absolute values. With the two legs entered in each other's place
  (the P curve negative, the N curve positive) the stored open-circuit voltage is -0.42 V
  and the stored short-circuit current is negative.
\<close>

theorem couple_open_circuit_voltage_negative:
  "\<exists>c. on_calc_Couple quad_ref fsolve_ref couple_input_swapped = Inr c
       \<and> Th_oc c = 1350 \<and> Voc c = - (21/50) \<and> Voc c < 0 \<and> Isc (opt c) < 0"
  using on_calc_Couple_swapped by simp

text \<open>
  Claim C7. The open-circuit hot-side temperature is what the root finder returns for the
  open-circuit residual from the seed \<open>Tmax\<close>. Above \<open>Tc\<close> that residual is the pure
  conduction identity (the conductance parameter times the floored conductivity integral,
  minus \<open>Qin\<close>; in couple mode the sum over the two legs), with no term in the Seebeck
  coefficient or the resistivity; so whenever the returned point is a zero of the residual
  above \<open>Tc\<close>, it is a root of the conduction identity.
\<close>

theorem open_circuit_root:
  assumes "2 \<le> length (s_poly x)" "Tmax x \<noteq> 0" "Lmax x \<noteq> 0"
    and "2 \<le> length (p_s_poly y)" "2 \<le> length (n_s_poly y)" "Tmax y \<noteq> 0" "Lmax y \<noteq> 0"
  shows "\<exists>p c. on_calc_single quad fsolve x = Inr p \<and> on_calc_Couple quad fsolve y = Inr c
     \<and> Th_oc p = fsolve (eq_oc_single quad (k_poly x) (alpha (opt p)) (Qin x) (Tc x)) (Tmax x)
     \<and> (eq_oc_single quad (k_poly x) (alpha (opt p)) (Qin x) (Tc x) (Th_oc p) = 0
          \<and> Th_oc p > Tc x
        \<longrightarrow> alpha (opt p) * safe_polyint_k quad (k_poly x) (Tc x) (Th_oc p) k_min_default
              - Qin x = 0)
     \<and> (\<forall>t. t > Tc x \<longrightarrow> eq_oc_single quad (k_poly x) (alpha (opt p)) (Qin x) (Tc x) t
              = alpha (opt p) * safe_polyint_k quad (k_poly x) (Tc x) t k_min_default - Qin x)
     \<and> Th_oc c = fsolve (eq_oc_Couple quad (p_k_poly y) (n_k_poly y) (alphaP (opt c))
                          (alphaN (opt c)) (Qin y) (Tc y)) (Tmax y)
     \<and> (eq_oc_Couple quad (p_k_poly y) (n_k_poly y) (alphaP (opt c)) (alphaN (opt c))
            (Qin y) (Tc y) (Th_oc c) = 0
          \<and> Th_oc c > Tc y
        \<longrightarrow> alphaP (opt c) * safe_polyint_k quad (p_k_poly y) (Tc y) (Th_oc c) k_min_default
              + alphaN (opt c) * safe_polyint_k quad (n_k_poly y) (Tc y) (Th_oc c) k_min_default
              - Qin y = 0)
     \<and> (\<forall>t. t > Tc y \<longrightarrow> eq_oc_Couple quad (p_k_poly y) (n_k_poly y) (alphaP (opt c))
                 (alphaN (opt c)) (Qin y) (Tc y) t
              = alphaP (opt c) * safe_polyint_k quad (p_k_poly y) (Tc y) t k_min_default
                + alphaN (opt c) * safe_polyint_k quad (n_k_poly y) (Tc y) t k_min_default
                - Qin y)"
proof -
  from on_calc_single_fields [OF assms(1-3), of quad fsolve]
  obtain p where p: "on_calc_single quad fsolve x = Inr p"
    and pt: "Th_oc p = fsolve (eq_oc_single quad (k_poly x) (alpha (opt p)) (Qin x) (Tc x)) (Tmax x)"
    by blast
  from on_calc_Couple_fields [OF assms(4-7), of quad fsolve]
  obtain c where c: "on_calc_Couple quad fsolve y = Inr c"
    and ct: "Th_oc c = fsolve (eq_oc_Couple quad (p_k_poly y) (n_k_poly y) (alphaP (opt c))
                          (alphaN (opt c)) (Qin y) (Tc y)) (Tmax y)"
    by blast
  have s: "t > tc \<Longrightarrow> eq_oc_single quad kp a q tc t
       = a * safe_polyint_k quad kp tc t k_min_default - q" for t tc kp a q
    by (simp add: eq_oc_single_def)
  have d: "t > tc \<Longrightarrow> eq_oc_Couple quad pk nk aP aN q tc t
       = aP * safe_polyint_k quad pk tc t k_min_default
         + aN * safe_polyint_k quad nk tc t k_min_default - q" for t tc pk nk aP aN q
    by (simp add: eq_oc_Couple_def)
  show ?thesis
    apply (rule exI [of _ p], rule exI [of _ c])
    apply (intro conjI p c pt ct)
    using s d by auto
qed

theorem open_circuit_root_witness:
  "2 \<le> length (s_poly single_input_ex) \<and> Tmax single_input_ex \<noteq> 0 \<and> Lmax single_input_ex \<noteq> 0
   \<and> 2 \<le> length (p_s_poly couple_input_ex) \<and> 2 \<le> length (n_s_poly couple_input_ex)
   \<and> Tmax couple_input_ex \<noteq> 0 \<and> Lmax couple_input_ex \<noteq> 0
   \<and> (\<exists>p c. on_calc_single quad_ref fsolve_ref single_input_ex = Inr p
          \<and> on_calc_Couple quad_ref fsolve_ref couple_input_ex = Inr c
          \<and> Th_oc p = 1350 \<and> alpha (opt p) = 1/1575
          \<and> eq_oc_single quad_ref [3/2] (1/1575) 1 300 1350 = 0 \<and> (1350::real) > 300
          \<and> alpha (opt p) * safe_polyint_k quad_ref (k_poly single_input_ex)
               (Tc single_input_ex) (Th_oc p) k_min_default - Qin single_input_ex = 0
          \<and> Th_oc c = 1350 \<and> alphaP (opt c) = 1/3150 \<and> alphaN (opt c) = 1/3150
          \<and> eq_oc_Couple quad_ref [3/2] [3/2] (1/3150) (1/3150) 1 300 1350 = 0
          \<and> alphaP (opt c) * safe_polyint_k quad_ref (p_k_poly couple_input_ex)
               (Tc couple_input_ex) (Th_oc c) k_min_default
             + alphaN (opt c) * safe_polyint_k quad_ref (n_k_poly couple_input_ex)
               (Tc couple_input_ex) (Th_oc c) k_min_default - Qin couple_input_ex = 0)"
proof -
  have h: "2 \<le> length (s_poly single_input_ex)" "Tmax single_input_ex \<noteq> 0"
    "Lmax single_input_ex \<noteq> 0" "2 \<le> length (p_s_poly couple_input_ex)"
    "2 \<le> length (n_s_poly couple_input_ex)" "Tmax couple_input_ex \<noteq> 0"
    "Lmax couple_input_ex \<noteq> 0"
    by (simp_all add: single_input_ex_def couple_input_ex_def)
  from open_circuit_root [OF h, of quad_ref fsolve_ref]
  obtain p c where p: "on_calc_single quad_ref fsolve_ref single_input_ex = Inr p"
    and c: "on_calc_Couple quad_ref fsolve_ref couple_input_ex = Inr c"
    and ps: "eq_oc_single quad_ref (k_poly single_input_ex) (alpha (opt p)) (Qin single_input_ex)
               (Tc single_input_ex) (Th_oc p) = 0 \<and> Th_oc p > Tc single_input_ex
        \<longrightarrow> alpha (opt p) * safe_polyint_k quad_ref (k_poly single_input_ex)
               (Tc single_input_ex) (Th_oc p) k_min_default - Qin single_input_ex = 0"
    and cs: "eq_oc_Couple quad_ref (p_k_poly couple_input_ex) (n_k_poly couple_input_ex)
               (alphaP (opt c)) (alphaN (opt c)) (Qin couple_input_ex) (Tc couple_input_ex)
               (Th_oc c) = 0 \<and> Th_oc c > Tc couple_input_ex
        \<longrightarrow> alphaP (opt c) * safe_polyint_k quad_ref (p_k_poly couple_input_ex)
               (Tc couple_input_ex) (Th_oc c) k_min_default
             + alphaN (opt c) * safe_polyint_k quad_ref (n_k_poly couple_input_ex)
               (Tc couple_input_ex) (Th_oc c) k_min_default - Qin couple_input_ex = 0"
    by blast
  have pe: "Th_oc p = 1350 \<and> alpha (opt p) = 1/1575"
    using p on_calc_single_ex by auto
  have ce: "Th_oc c = 1350 \<and> alphaP (opt c) = 1/3150 \<and> alphaN (opt c) = 1/3150"
    using c on_calc_Couple_ex by auto
  have r1: "eq_oc_single quad_ref [3/2] (1/1575) 1 300 1350 = 0"
    by (simp add: eq_oc_single_def eval_defs)
  have r2: "eq_oc_Couple quad_ref [3/2] [3/2] (1/3150) (1/3150) 1 300 1350 = 0"
    by (simp add: eq_oc_Couple_def eval_defs)
  have i: "k_poly single_input_ex = [3/2]" "Qin single_input_ex = 1" "Tc single_input_ex = 300"
    "p_k_poly couple_input_ex = [3/2]" "n_k_poly couple_input_ex = [3/2]"
    "Qin couple_input_ex = 1" "Tc couple_input_ex = 300"
    by (simp_all add: single_input_ex_def couple_input_ex_def)
  from ps pe r1 i have a: "alpha (opt p) * safe_polyint_k quad_ref (k_poly single_input_ex)
               (Tc single_input_ex) (Th_oc p) k_min_default - Qin single_input_ex = 0"
    by simp
  from cs ce r2 i have b: "alphaP (opt c) * safe_polyint_k quad_ref (p_k_poly couple_input_ex)
               (Tc couple_input_ex) (Th_oc c) k_min_default
             + alphaN (opt c) * safe_polyint_k quad_ref (n_k_poly couple_input_ex)
               (Tc couple_input_ex) (Th_oc c) k_min_default - Qin couple_input_ex = 0"
    by simp
  from h p c pe ce r1 r2 a b show ?thesis by auto
qed

section \<open>The guards against zero divisors\<close>

lemma np_x_times_1 [simp]: "(x::npfloat) * Fin 1 = x"
  by (cases x) (simp_all add: inf_of_sign_def)

lemma np_power2: "(x::npfloat) ^ 2 = x * x"
  by (simp add: numeral_2_eq_2 one_npfloat_def)

lemma polyval_np_Nil [simp]: "polyval_np [] x = 0"
  by (simp add: polyval_np_def)

lemmas np_eval_defs = Let_def convolve_1_0_def safe_polyint_k_np_def safe_polyval_k_np_def
  quad_ref_np_def fsolve_ref_np_def k_min_default_np_def np_power2 zero_npfloat_def
  one_npfloat_def minus_npfloat_def inverse_npfloat_def inf_of_sign_def maximum_np_def
  polyval_np_def

text \<open>
  Without its guard a quotient by a conductance parameter or a temperature difference that
  is zero is inf or nan, never zero.
\<close>

lemma quotient_by_zero_not_zero:
  "(1 / (0::npfloat)) * (1 / dt) * R \<noteq> 0"
  "(1 / al) * (1 / (0::npfloat)) * R \<noteq> 0"
  by (cases dt; cases R; cases al; simp add: zero_npfloat_def one_npfloat_def inf_of_sign_def)+

lemma run_calc_single_np_guards:
  assumes "2 \<le> length p_st" "tmax \<noteq> 0" "L \<noteq> 0"
  shows "\<exists>e1 m1 al V1 tsc isc ropt rl.
      run_calc_single_np quad fsolve p_st p_kt p_rt qin tc tmax L gh gc
        = Inr (e1, m1, al, V1, tsc, isc, ropt, rl)
    \<and> (al = 0 \<or> tmax - tc = 0 \<longrightarrow> ropt = 0)
    \<and> (al = 0 \<or> tsc - tc = 0
        \<or> R_star_single_np al (tsc - tc) (Reng1_np p_rt tc tsc L gh gc) = 0 \<longrightarrow> isc = 0)"
  unfolding run_calc_single_np_def convolve_polyder [OF assms(1)] sum.case Let_def
    R_star_single_np_def Reng1_np_def
  using assms(2,3) by auto

lemma run_calc_Couple_np_guards:
  assumes "2 \<le> length p_st" "2 \<le> length n_st" "tmax \<noteq> 0" "L \<noteq> 0"
  shows "\<exists>e2 m2 al2 be2 aP2 aN2 P2 V2 tsc2 isc2 ropt2 rl2.
      run_calc_Couple_np quad fsolve qin tc tmax L nh nc ph pc p_st p_kt p_rt n_st n_kt n_rt
        = Inr (e2, m2, al2, be2, aP2, aN2, P2, V2, tsc2, isc2, ropt2, rl2)
    \<and> (tmax - tc = 0 \<or> aP2 = 0 \<or> aN2 = 0 \<longrightarrow> ropt2 = 0)
    \<and> (tsc2 - tc = 0 \<or> aP2 = 0 \<or> aN2 = 0
        \<or> R_star_Couple_np aP2 aN2 (tsc2 - tc) (Reng1_np p_rt tc tsc2 L ph pc)
             (Reng1_np n_rt tc tsc2 L nh nc) = 0 \<longrightarrow> isc2 = 0)"
  unfolding run_calc_Couple_np_def convolve_polyder [OF assms(1)] convolve_polyder [OF assms(2)]
    sum.case Let_def R_star_Couple_np_def Reng1_np_def
  using assms(3,4) by auto

lemma solve_single_np_guards:
  assumes "2 \<le> length p_st"
  shows "\<exists>t3 i3.
      solve_Th_I_at_m_single_np quad fsolve mm tc qin L gh gc p_st p_kt p_rt a = Inr (t3, i3)
    \<and> (a = 0 \<or> t3 - tc = 0
        \<or> R_star_single_np a (t3 - tc) (Reng1_np p_rt tc t3 L gh gc) = 0 \<longrightarrow> i3 = 0)"
  unfolding solve_Th_I_at_m_single_np_def convolve_polyder [OF assms(1)]
    sum.case Let_def R_star_single_np_def Reng1_np_def
  by auto

lemma solve_Couple_np_guards:
  assumes "2 \<le> length p_st" "2 \<le> length n_st"
  shows "\<exists>t4 i4.
      solve_Th_I_at_m_Couple_np quad fsolve mm be tc qin L nh nc ph pc p_st p_kt p_rt n_st n_kt n_rt aP
        = Inr (t4, i4)
    \<and> (t4 - tc = 0 \<or> aP = 0 \<or> aP * be = 0
        \<or> R_star_Couple_np aP (aP * be) (t4 - tc) (Reng1_np p_rt tc t4 L ph pc)
             (Reng1_np n_rt tc t4 L nh nc) = 0 \<longrightarrow> i4 = 0)"
  unfolding solve_Th_I_at_m_Couple_np_def convolve_polyder [OF assms(1)] convolve_polyder [OF assms(2)]
    sum.case Let_def R_star_Couple_np_def Reng1_np_def
  by auto

text \<open>
  The example leg and the example couple without heat flux: the conductance parameters
  are zero, and so are the characteristic resistances and the short-circuit current.
\<close>

lemma run_single_np_zero_flux:
  "run_calc_single_np quad_ref_np fsolve_ref_np [0, 1/5000] [3/2] [3/2000000] (Fin 0) (Fin 300)
       (Fin 600) (Fin 1) (Fin 0) (Fin 0)
     = Inr (Fin (2/7), Fin 3, Fin 0, Fin (9/200), Fin 320, Fin 0, Fin 0, Fin 0)"
  unfolding run_calc_single_np_def
  by (simp add: np_eval_defs sc_eq_single_np_def)

lemma run_Couple_np_zero_flux:
  "run_calc_Couple_np quad_ref_np fsolve_ref_np (Fin 0) (Fin 300) (Fin 600) (Fin 1) (Fin 0) (Fin 0)
       (Fin 0) (Fin 0) [0, 1/5000] [3/2] [3/2000000] [0, - (1/5000)] [3/2] [3/2000000]
     = Inr (Fin (2/7), Fin 3, Fin 0, Fin 1, Fin 0, Fin 0, Fin 0, Fin (9/100), Fin 320, Fin 0,
            Fin 0, Fin 0)"
  unfolding run_calc_Couple_np_def
  by (simp add: np_eval_defs sc_eq_Couple_np_def real_sqrt_divide)

lemma solve_single_np_zero_conductance:
  "solve_Th_I_at_m_single_np quad_ref_np fsolve_ref_np (Fin 3) (Fin 300) (Fin 1) (Fin 1) (Fin 0)
       (Fin 0) [0, 1/5000] [3/2] [3/2000000] (Fin 0) = Inr (Fin 350, Fin 0)"
  unfolding solve_Th_I_at_m_single_np_def
  by (simp add: np_eval_defs heat_balance_single_np_def)

lemma solve_Couple_np_zero_conductance:
  "solve_Th_I_at_m_Couple_np quad_ref_np fsolve_ref_np (Fin 3) (Fin 1) (Fin 300) (Fin 1) (Fin 1)
       (Fin 0) (Fin 0) (Fin 0) (Fin 0) [0, 1/5000] [3/2] [3/2000000] [0, - (1/5000)] [3/2]
       [3/2000000] (Fin 0) = Inr (Fin 350, Fin 0)"
  unfolding solve_Th_I_at_m_Couple_np_def
  by (simp add: np_eval_defs heat_balance_Couple_np_def)


text \<open>
  At \<open>Tmax = Tc\<close> the figure of merit, the load ratio and the conductance parameter are nan;
  the guard makes \<open>R_star_opt\<close> zero all the same, while \<open>R_L_opt = m * R_star_opt\<close>, which
  has no guard, is nan.
\<close>

lemma run_single_np_equal_temperatures:
  "run_calc_single_np quad_ref_np fsolve_ref_np [0, 1/5000] [3/2] [3/2000000] (Fin 1) (Fin 300)
       (Fin 300) (Fin 1) (Fin 0) (Fin 0)
     = Inr (NaN, NaN, NaN, NaN, Fin 320, NaN, Fin 0, NaN)"
  unfolding run_calc_single_np_def
  by (simp add: np_eval_defs sc_eq_single_np_def)

lemma run_Couple_np_equal_temperatures:
  "run_calc_Couple_np quad_ref_np fsolve_ref_np (Fin 1) (Fin 300) (Fin 300) (Fin 1) (Fin 0) (Fin 0)
       (Fin 0) (Fin 0) [0, 1/5000] [3/2] [3/2000000] [0, - (1/5000)] [3/2] [3/2000000]
     = Inr (NaN, NaN, NaN, Fin 1, NaN, NaN, NaN, NaN, Fin 320, NaN, Fin 0, NaN)"
  unfolding run_calc_Couple_np_def
  by (simp add: np_eval_defs sc_eq_Couple_np_def real_sqrt_divide)

text \<open>
  Claim C9. In numpy's arithmetic, where a quotient by zero is inf or nan and not an
  exception: on every input that passes the places where Python itself raises (a Seebeck
  curve of fewer than two coefficients and, in the optimizers, \<open>Tmax = 0\<close> and \<open>L = 0\<close>), the
  two optimizers and the two operating-point solvers return, and the guarded quantities
  are the float zero, neither inf nor nan:
  \<open>R_star_opt\<close> when the conductance parameter (in couple mode \<open>alphaP\<close> or \<open>alphaN\<close>) or
  \<open>Tmax - Tc\<close> is zero; the short-circuit current when the conductance parameter or
  \<open>Th_sc - Tc\<close> is zero, and whenever the characteristic resistance \<open>R_star_sc\<close> is zero; the
  operating-point current when the conductance parameter or \<open>Th_opt - Tc\<close> is zero, and
  whenever the characteristic resistance \<open>R_star\<close> is zero. (\<open>R_L_opt = m * R_star_opt\<close> has
  no guard and is not one of these quantities.)
\<close>

theorem guarded_quotients_are_zero:
  assumes "2 \<le> length p_st" "2 \<le> length n_st" "tmax \<noteq> 0" "L \<noteq> 0"
  shows "\<exists>e1 m1 al V1 tsc isc ropt rl e2 m2 al2 be2 aP2 aN2 P2 V2 tsc2 isc2 ropt2 rl2 t3 i3 t4 i4.
      run_calc_single_np quad fsolve p_st p_kt p_rt qin tc tmax L gh gc
        = Inr (e1, m1, al, V1, tsc, isc, ropt, rl)
    \<and> run_calc_Couple_np quad fsolve qin tc tmax L nh nc ph pc p_st p_kt p_rt n_st n_kt n_rt
        = Inr (e2, m2, al2, be2, aP2, aN2, P2, V2, tsc2, isc2, ropt2, rl2)
    \<and> solve_Th_I_at_m_single_np quad fsolve mm tc' qin' L' gh gc p_st p_kt p_rt a = Inr (t3, i3)
    \<and> solve_Th_I_at_m_Couple_np quad fsolve mm be tc' qin' L' nh nc ph pc p_st p_kt p_rt
         n_st n_kt n_rt aP = Inr (t4, i4)
    \<and> (al = 0 \<or> tmax - tc = 0 \<longrightarrow> ropt = 0)
    \<and> (al = 0 \<or> tsc - tc = 0
        \<or> R_star_single_np al (tsc - tc) (Reng1_np p_rt tc tsc L gh gc) = 0 \<longrightarrow> isc = 0)
    \<and> (tmax - tc = 0 \<or> aP2 = 0 \<or> aN2 = 0 \<longrightarrow> ropt2 = 0)
    \<and> (tsc2 - tc = 0 \<or> aP2 = 0 \<or> aN2 = 0
        \<or> R_star_Couple_np aP2 aN2 (tsc2 - tc) (Reng1_np p_rt tc tsc2 L ph pc)
             (Reng1_np n_rt tc tsc2 L nh nc) = 0 \<longrightarrow> isc2 = 0)
    \<and> (a = 0 \<or> t3 - tc' = 0
        \<or> R_star_single_np a (t3 - tc') (Reng1_np p_rt tc' t3 L' gh gc) = 0 \<longrightarrow> i3 = 0)
    \<and> (t4 - tc' = 0 \<or> aP = 0 \<or> aP * be = 0
        \<or> R_star_Couple_np aP (aP * be) (t4 - tc') (Reng1_np p_rt tc' t4 L' ph pc)
             (Reng1_np n_rt tc' t4 L' nh nc) = 0 \<longrightarrow> i4 = 0)"
proof -
  from run_calc_single_np_guards [OF assms(1,3,4), where quad = quad and fsolve = fsolve
      and p_kt = p_kt and p_rt = p_rt and qin = qin and tc = tc and gh = gh and gc = gc]
  obtain e1 m1 al V1 tsc isc ropt rl where
      r: "run_calc_single_np quad fsolve p_st p_kt p_rt qin tc tmax L gh gc
            = Inr (e1, m1, al, V1, tsc, isc, ropt, rl)"
    and r1: "al = 0 \<or> tmax - tc = 0 \<longrightarrow> ropt = 0"
    and r2: "al = 0 \<or> tsc - tc = 0
        \<or> R_star_single_np al (tsc - tc) (Reng1_np p_rt tc tsc L gh gc) = 0 \<longrightarrow> isc = 0"
    by blast
  from run_calc_Couple_np_guards [OF assms, where quad = quad and fsolve = fsolve
      and p_kt = p_kt and p_rt = p_rt and n_kt = n_kt and n_rt = n_rt and qin = qin and tc = tc
      and nh = nh and nc = nc and ph = ph and pc = pc]
  obtain e2 m2 al2 be2 aP2 aN2 P2 V2 tsc2 isc2 ropt2 rl2 where
      c: "run_calc_Couple_np quad fsolve qin tc tmax L nh nc ph pc p_st p_kt p_rt n_st n_kt n_rt
            = Inr (e2, m2, al2, be2, aP2, aN2, P2, V2, tsc2, isc2, ropt2, rl2)"
    and c1: "tmax - tc = 0 \<or> aP2 = 0 \<or> aN2 = 0 \<longrightarrow> ropt2 = 0"
    and c2: "tsc2 - tc = 0 \<or> aP2 = 0 \<or> aN2 = 0
        \<or> R_star_Couple_np aP2 aN2 (tsc2 - tc) (Reng1_np p_rt tc tsc2 L ph pc)
             (Reng1_np n_rt tc tsc2 L nh nc) = 0 \<longrightarrow> isc2 = 0"
    by blast
  from solve_single_np_guards [OF assms(1), where quad = quad and fsolve = fsolve
      and p_kt = p_kt and p_rt = p_rt and qin = qin' and tc = tc' and L = L' and gh = gh
      and gc = gc and mm = mm and a = a]
  obtain t3 i3 where
      s: "solve_Th_I_at_m_single_np quad fsolve mm tc' qin' L' gh gc p_st p_kt p_rt a = Inr (t3, i3)"
    and s1: "a = 0 \<or> t3 - tc' = 0
        \<or> R_star_single_np a (t3 - tc') (Reng1_np p_rt tc' t3 L' gh gc) = 0 \<longrightarrow> i3 = 0"
    by blast
  from solve_Couple_np_guards [OF assms(1,2), where quad = quad and fsolve = fsolve
      and p_kt = p_kt and p_rt = p_rt and n_kt = n_kt and n_rt = n_rt and qin = qin' and tc = tc'
      and L = L' and nh = nh and nc = nc and ph = ph and pc = pc and mm = mm and be = be
      and aP = aP]
  obtain t4 i4 where
      d: "solve_Th_I_at_m_Couple_np quad fsolve mm be tc' qin' L' nh nc ph pc p_st p_kt p_rt
            n_st n_kt n_rt aP = Inr (t4, i4)"
    and d1: "t4 - tc' = 0 \<or> aP = 0 \<or> aP * be = 0
        \<or> R_star_Couple_np aP (aP * be) (t4 - tc') (Reng1_np p_rt tc' t4 L' ph pc)
             (Reng1_np n_rt tc' t4 L' nh nc) = 0 \<longrightarrow> i4 = 0"
    by blast
  show ?thesis
    by (intro exI conjI) (rule r c s d r1 r2 c1 c2 s1 d1)+
qed

theorem guarded_quotients_are_zero_witness:
  "2 \<le> length [0, 1/5000 :: real] \<and> 2 \<le> length [0, - (1/5000) :: real]
   \<and> Fin 600 \<noteq> 0 \<and> Fin 1 \<noteq> 0
   \<and> (\<exists>e1 m1 V1 tsc rl e2 m2 al2 be2 P2 V2 tsc2 rl2 t3 t4.
        run_calc_single_np quad_ref_np fsolve_ref_np [0, 1/5000] [3/2] [3/2000000] (Fin 0)
            (Fin 300) (Fin 600) (Fin 1) (Fin 0) (Fin 0)
          = Inr (e1, m1, 0, V1, tsc, 0, 0, rl)
      \<and> run_calc_Couple_np quad_ref_np fsolve_ref_np (Fin 0) (Fin 300) (Fin 600) (Fin 1) (Fin 0)
            (Fin 0) (Fin 0) (Fin 0) [0, 1/5000] [3/2] [3/2000000] [0, - (1/5000)] [3/2] [3/2000000]
          = Inr (e2, m2, al2, be2, 0, 0, P2, V2, tsc2, 0, 0, rl2)
      \<and> solve_Th_I_at_m_single_np quad_ref_np fsolve_ref_np (Fin 3) (Fin 300) (Fin 1) (Fin 1)
            (Fin 0) (Fin 0) [0, 1/5000] [3/2] [3/2000000] 0 = Inr (t3, 0)
      \<and> solve_Th_I_at_m_Couple_np quad_ref_np fsolve_ref_np (Fin 3) (Fin 1) (Fin 300) (Fin 1)
            (Fin 1) (Fin 0) (Fin 0) (Fin 0) (Fin 0) [0, 1/5000] [3/2] [3/2000000]
            [0, - (1/5000)] [3/2] [3/2000000] 0 = Inr (t4, 0))"
proof -
  have h: "2 \<le> length [0, 1/5000 :: real]" "2 \<le> length [0, - (1/5000) :: real]"
    "Fin 600 \<noteq> 0" "Fin 1 \<noteq> 0"
    by (simp_all add: zero_npfloat_def)
  from guarded_quotients_are_zero [OF h, where quad = quad_ref_np and fsolve = fsolve_ref_np
      and p_kt = "[3/2]" and p_rt = "[3/2000000]" and n_kt = "[3/2]" and n_rt = "[3/2000000]"
      and qin = "Fin 0" and tc = "Fin 300" and gh = "Fin 0" and gc = "Fin 0"
      and nh = "Fin 0" and nc = "Fin 0" and ph = "Fin 0" and pc = "Fin 0"
      and mm = "Fin 3" and be = "Fin 1" and tc' = "Fin 300" and qin' = "Fin 1" and L' = "Fin 1"
      and a = 0 and aP = 0]
  obtain e1 m1 al V1 tsc isc ropt rl e2 m2 al2 be2 aP2 aN2 P2 V2 tsc2 isc2 ropt2 rl2 t3 i3 t4 i4
    where
      r: "run_calc_single_np quad_ref_np fsolve_ref_np [0, 1/5000] [3/2] [3/2000000] (Fin 0)
            (Fin 300) (Fin 600) (Fin 1) (Fin 0) (Fin 0)
          = Inr (e1, m1, al, V1, tsc, isc, ropt, rl)"
    and c: "run_calc_Couple_np quad_ref_np fsolve_ref_np (Fin 0) (Fin 300) (Fin 600) (Fin 1) (Fin 0)
            (Fin 0) (Fin 0) (Fin 0) [0, 1/5000] [3/2] [3/2000000] [0, - (1/5000)] [3/2] [3/2000000]
          = Inr (e2, m2, al2, be2, aP2, aN2, P2, V2, tsc2, isc2, ropt2, rl2)"
    and s: "solve_Th_I_at_m_single_np quad_ref_np fsolve_ref_np (Fin 3) (Fin 300) (Fin 1) (Fin 1)
            (Fin 0) (Fin 0) [0, 1/5000] [3/2] [3/2000000] 0 = Inr (t3, i3)"
    and d: "solve_Th_I_at_m_Couple_np quad_ref_np fsolve_ref_np (Fin 3) (Fin 1) (Fin 300) (Fin 1)
            (Fin 1) (Fin 0) (Fin 0) (Fin 0) (Fin 0) [0, 1/5000] [3/2] [3/2000000]
            [0, - (1/5000)] [3/2] [3/2000000] 0 = Inr (t4, i4)"
    and r1: "al = 0 \<or> Fin 600 - Fin 300 = 0 \<longrightarrow> ropt = 0"
    and r2: "al = 0 \<or> tsc - Fin 300 = 0
        \<or> R_star_single_np al (tsc - Fin 300)
             (Reng1_np [3/2000000] (Fin 300) tsc (Fin 1) (Fin 0) (Fin 0)) = 0 \<longrightarrow> isc = 0"
    and c1: "Fin 600 - Fin 300 = 0 \<or> aP2 = 0 \<or> aN2 = 0 \<longrightarrow> ropt2 = 0"
    and c2: "tsc2 - Fin 300 = 0 \<or> aP2 = 0 \<or> aN2 = 0
        \<or> R_star_Couple_np aP2 aN2 (tsc2 - Fin 300)
             (Reng1_np [3/2000000] (Fin 300) tsc2 (Fin 1) (Fin 0) (Fin 0))
             (Reng1_np [3/2000000] (Fin 300) tsc2 (Fin 1) (Fin 0) (Fin 0)) = 0 \<longrightarrow> isc2 = 0"
    and s1: "(0::npfloat) = 0 \<or> t3 - Fin 300 = 0
        \<or> R_star_single_np 0 (t3 - Fin 300)
             (Reng1_np [3/2000000] (Fin 300) t3 (Fin 1) (Fin 0) (Fin 0)) = 0 \<longrightarrow> i3 = 0"
    and d1: "t4 - Fin 300 = 0 \<or> (0::npfloat) = 0 \<or> 0 * Fin 1 = (0::npfloat)
        \<or> R_star_Couple_np 0 (0 * Fin 1) (t4 - Fin 300)
             (Reng1_np [3/2000000] (Fin 300) t4 (Fin 1) (Fin 0) (Fin 0))
             (Reng1_np [3/2000000] (Fin 300) t4 (Fin 1) (Fin 0) (Fin 0)) = 0 \<longrightarrow> i4 = 0"
    by (elim exE conjE) (rule that, assumption+)
  have ar: "al = 0"
    using r run_single_np_zero_flux by (auto simp: zero_npfloat_def)
  have ac: "aP2 = 0"
    using c run_Couple_np_zero_flux by (auto simp: zero_npfloat_def)
  have 1: "ropt = 0" "isc = 0" using r1 r2 ar by simp_all
  have 2: "ropt2 = 0" "isc2 = 0" using c1 c2 ac by simp_all
  have 3: "i3 = 0" using s1 by simp
  have 4: "i4 = 0" using d1 by simp
  from c have an: "aN2 = 0"
    using run_Couple_np_zero_flux by (auto simp: zero_npfloat_def)
  from r c s d ar ac an 1 2 3 4 h show ?thesis by blast
qed

end
